theory Spec2Isabelle
  imports Complex_Main
begin

section \<open>Numbers\<close>

text \<open>
  The renderer computes with JavaScript numbers. Two number types are used below.

  Geometry read from the physics engine (positions, angles, vertices, radii, lengths) is
  finite, and is taken as \<open>real\<close>: arithmetic is exact, \<open>Math.PI\<close> is \<open>pi\<close>.

  The viewport (\<open>render.bounds\<close>, the canvas size, the arguments of \<open>Render.lookAt\<close>) can hold
  \<open>Infinity\<close>, \<open>-Infinity\<close> and \<open>NaN\<close>: \<open>Render.lookAt\<close> starts its search from an infinite
  box. These are values of \<open>jsnum\<close>, with the IEEE rules for the three special values written
  out; finite values are exact reals and zero carries no sign (every zero divides as \<open>+0\<close>).
\<close>

datatype jsnum = Fin real | PInf | NInf | NaN

fun js_sgn :: "jsnum \<Rightarrow> int" where
  "js_sgn (Fin a) = (if a < 0 then - 1 else if a = 0 then 0 else 1)"
| "js_sgn PInf = 1"
| "js_sgn NInf = - 1"
| "js_sgn NaN = 0"

fun js_neg :: "jsnum \<Rightarrow> jsnum" where
  "js_neg (Fin a) = Fin (- a)"
| "js_neg PInf = NInf"
| "js_neg NInf = PInf"
| "js_neg NaN = NaN"

fun js_add :: "jsnum \<Rightarrow> jsnum \<Rightarrow> jsnum" where
  "js_add NaN y = NaN"
| "js_add x NaN = NaN"
| "js_add (Fin a) (Fin b) = Fin (a + b)"
| "js_add PInf NInf = NaN"
| "js_add NInf PInf = NaN"
| "js_add PInf y = PInf"
| "js_add x PInf = PInf"
| "js_add NInf y = NInf"
| "js_add x NInf = NInf"

definition js_sub :: "jsnum \<Rightarrow> jsnum \<Rightarrow> jsnum" where
  "js_sub x y = js_add x (js_neg y)"

definition js_inf :: "int \<Rightarrow> jsnum" where
  "js_inf s = (if s = 0 then NaN else if 0 < s then PInf else NInf)"

fun js_mul :: "jsnum \<Rightarrow> jsnum \<Rightarrow> jsnum" where
  "js_mul NaN y = NaN"
| "js_mul x NaN = NaN"
| "js_mul (Fin a) (Fin b) = Fin (a * b)"
| "js_mul x y = js_inf (js_sgn x * js_sgn y)"

fun js_div :: "jsnum \<Rightarrow> jsnum \<Rightarrow> jsnum" where
  "js_div NaN y = NaN"
| "js_div x NaN = NaN"
| "js_div (Fin a) (Fin b) = (if b = 0 then js_inf (js_sgn (Fin a)) else Fin (a / b))"
| "js_div (Fin a) y = Fin 0"
| "js_div x (Fin b) = js_inf (js_sgn x * (if b < 0 then - 1 else 1))"
| "js_div x y = NaN"

fun js_lt :: "jsnum \<Rightarrow> jsnum \<Rightarrow> bool" where
  "js_lt NaN y = False"
| "js_lt x NaN = False"
| "js_lt (Fin a) (Fin b) = (a < b)"
| "js_lt x NInf = False"
| "js_lt PInf y = False"
| "js_lt x y = True"

definition js_gt :: "jsnum \<Rightarrow> jsnum \<Rightarrow> bool" where
  "js_gt x y = js_lt y x"

definition js_le :: "jsnum \<Rightarrow> jsnum \<Rightarrow> bool" where
  "js_le x y = (x \<noteq> NaN \<and> y \<noteq> NaN \<and> \<not> js_lt y x)"

definition js_ge :: "jsnum \<Rightarrow> jsnum \<Rightarrow> bool" where
  "js_ge x y = js_le y x"

definition finite_num :: "jsnum \<Rightarrow> bool" where
  "finite_num x = (case x of Fin a \<Rightarrow> True | _ \<Rightarrow> False)"


section \<open>Data model\<close>

subsection \<open>Faults\<close>

text \<open>
  The source has no \<open>try\<close>/\<open>catch\<close>: reading a property of \<open>undefined\<close> throws a
  \<open>TypeError\<close> that unwinds every caller. A routine that can throw returns a \<open>res\<close>:
  \<open>Ok s\<close> is normal completion in state \<open>s\<close>; \<open>Fault e s\<close> is the exception \<open>e\<close>, raised
  when the state was \<open>s\<close> (whatever was mutated before the throw stays mutated).
\<close>

datatype js_error = TypeError

datatype 's res = Ok 's | Fault js_error 's

fun state_of :: "'s res \<Rightarrow> 's" where
  "state_of (Ok s) = s"
| "state_of (Fault e s) = s"

fun is_ok :: "'s res \<Rightarrow> bool" where
  "is_ok (Ok s) = True"
| "is_ok (Fault e s) = False"

text \<open>Sequencing of two statements: the second runs only when the first did not throw.\<close>

fun and_then :: "'s res \<Rightarrow> ('s \<Rightarrow> 's res) \<Rightarrow> 's res" where
  "and_then (Ok s) f = f s"
| "and_then (Fault e s) f = Fault e s"

subsection \<open>Vectors (matter-js \<open>Vector\<close>)\<close>

type_synonym vec = "real \<times> real"

definition Vector_add :: "vec \<Rightarrow> vec \<Rightarrow> vec" where
  "Vector_add a b = (fst a + fst b, snd a + snd b)"

definition Vector_sub :: "vec \<Rightarrow> vec \<Rightarrow> vec" where
  "Vector_sub a b = (fst a - fst b, snd a - snd b)"

definition Vector_magnitude :: "vec \<Rightarrow> real" where
  "Vector_magnitude v = sqrt (fst v * fst v + snd v * snd v)"

definition Vector_normalise :: "vec \<Rightarrow> vec" where
  "Vector_normalise v =
     (let m = Vector_magnitude v in if m = 0 then (0, 0) else (fst v / m, snd v / m))"

definition Vector_perp :: "vec \<Rightarrow> vec" where
  "Vector_perp v = (- snd v, fst v)"

type_synonym jvec = "jsnum \<times> jsnum"

record jbounds =
  b_min :: jvec
  b_max :: jvec

subsection \<open>Drawing-surface nodes (sprite-core \<open>Sprite\<close> and \<open>Path\<close>)\<close>

text \<open>
  A node is its attribute table. The three attributes the renderer reads back or rewrites
  every frame (\<open>pos\<close>, \<open>rotate\<close>, \<open>opacity\<close>) are fields; every other attribute written
  (\<open>anchor\<close>, \<open>size\<close>, \<open>path\<close>, colours, textures) is kept in \<open>n_other\<close> in the order written.
  A new node has the library's default opacity 1. A path descriptor \<open>d\<close> is kept as the list
  of its points (\<open>M\<close> the first, \<open>L\<close> the others, closed by \<open>z\<close>) instead of the formatted string.
\<close>

datatype prim = Sprite | Path

datatype attr_val =
  Num real | Pair real real | Str string | Textures "string list" | PathD "vec list"

record node =
  n_prim :: prim
  n_pos :: vec
  n_rotate :: real
  n_opacity :: real
  n_other :: "(string \<times> attr_val) list"

definition new_node :: "prim \<Rightarrow> node" where
  "new_node p = \<lparr>n_prim = p, n_pos = (0, 0), n_rotate = 0, n_opacity = 1, n_other = []\<rparr>"

text \<open>
  \<open>part.render.sprite.attrs\<close> is an attribute object supplied by the application and passed
  to \<open>s.attr\<close> as it is. It may set any attribute, also the three above.
\<close>

record sprite_attrs =
  a_textures :: "string option"
  a_pos :: "vec option"
  a_rotate :: "real option"
  a_opacity :: "real option"
  a_other :: "(string \<times> attr_val) list"

record sprite =
  sp_texture :: "string option"
  sp_xOffset :: real
  sp_yOffset :: real
  sp_xScale :: real
  sp_yScale :: real
  sp_attrs :: "sprite_attrs option"

text \<open>\<open>s.attr({pos, rotate})\<close>\<close>

definition attr_pose :: "vec \<Rightarrow> real \<Rightarrow> node \<Rightarrow> node" where
  "attr_pose p r n = n\<lparr>n_pos := p, n_rotate := r\<rparr>"

text \<open>\<open>s.attr(name, value)\<close> for the attributes kept in \<open>n_other\<close>\<close>

definition attr_other :: "(string \<times> attr_val) list \<Rightarrow> node \<Rightarrow> node" where
  "attr_other kvs n = n\<lparr>n_other := n_other n @ kvs\<rparr>"

text \<open>\<open>s.attr(part.render.sprite.attrs)\<close>\<close>

definition attr_user :: "sprite_attrs \<Rightarrow> node \<Rightarrow> node" where
  "attr_user a n =
     n\<lparr>n_pos := (case a_pos a of Some p \<Rightarrow> p | None \<Rightarrow> n_pos n),
       n_rotate := (case a_rotate a of Some r \<Rightarrow> r | None \<Rightarrow> n_rotate n),
       n_opacity := (case a_opacity a of Some v \<Rightarrow> v | None \<Rightarrow> n_opacity n),
       n_other := n_other n
          @ (case a_textures a of Some t \<Rightarrow> [(''textures'', Str t)] | None \<Rightarrow> [])
          @ a_other a\<rparr>"

subsection \<open>Bodies and parts (matter-js \<open>Body\<close>)\<close>

text \<open>
  A part is itself a body object; \<open>body.parts\<close> is a list of references, and for a body that is
  not compound it holds the body itself. Bodies therefore live in a heap, addressed by
  reference. \<open>circleRadius\<close> is 0 for a part that is not a circle, and \<open>fullOpacity\<close> is absent
  until the renderer sets it; both are tested for truthiness, so 0 counts as absent.
\<close>

type_synonym ref = nat

record vertex =
  v_x :: real
  v_y :: real
  v_isInternal :: bool

record body =
  position :: vec
  angle :: real
  visible :: bool
  render_sprite :: "sprite option"
  fillStyle :: string
  circleRadius :: real
  vertices :: "vertex list"
  parts :: "ref list"
  isSleeping :: bool
  body_bounds :: "vec \<times> vec"
  spriteNode :: "ref option"
  fullOpacity :: "real option"

definition truthy :: "real option \<Rightarrow> bool" where
  "truthy v = (case v of None \<Rightarrow> False | Some x \<Rightarrow> x \<noteq> 0)"

text \<open>A texture is a string, also tested for truthiness: the empty string counts as absent.\<close>

definition nonempty :: "string option \<Rightarrow> bool" where
  "nonempty v = (case v of None \<Rightarrow> False | Some t \<Rightarrow> t \<noteq> [])"

subsection \<open>Constraints (matter-js \<open>Constraint\<close>)\<close>

datatype ctype = LineT | PinT | SpringT

record constraint =
  c_visible :: bool
  c_type :: ctype
  c_lineWidth :: real
  c_strokeStyle :: string
  c_anchors :: bool
  c_pointA :: "vec option"
  c_pointB :: "vec option"
  c_bodyA :: "ref option"
  c_bodyB :: "ref option"
  c_length :: real

subsection \<open>The canvas context\<close>

text \<open>The 2D context is the list of the calls and property writes made on it, oldest first.\<close>

datatype label = MouseLabel jsnum jsnum

datatype canvas_op =
    BeginPath | ClosePath | Stroke | Fill
  | MoveTo real real | LineTo real real
  | Arc real real real real real
  | SetLineWidth real | SetStrokeStyle string | SetFillStyle string
  | FillText label jsnum jsnum
  | Scale jsnum jsnum | Translate jsnum jsnum
  | SetTransform jsnum jsnum jsnum jsnum jsnum jsnum

type_synonym ctx2d = "canvas_op list"


subsection \<open>Mouse (matter-js \<open>Mouse\<close>), canvas, options, engine\<close>

record mouse =
  m_absolute :: jvec
  m_scale :: jvec
  m_offset :: jvec
  m_position :: jvec

definition mouse_reposition :: "mouse \<Rightarrow> mouse" where
  "mouse_reposition m =
     m\<lparr>m_position :=
        (js_add (js_mul (fst (m_absolute m)) (fst (m_scale m))) (fst (m_offset m)),
         js_add (js_mul (snd (m_absolute m)) (snd (m_scale m))) (snd (m_offset m)))\<rparr>"

definition Mouse_setScale :: "mouse \<Rightarrow> jvec \<Rightarrow> mouse" where
  "Mouse_setScale m sc = mouse_reposition (m\<lparr>m_scale := sc\<rparr>)"

definition Mouse_setOffset :: "mouse \<Rightarrow> jvec \<Rightarrow> mouse" where
  "Mouse_setOffset m off = mouse_reposition (m\<lparr>m_offset := off\<rparr>)"

record canvas =
  cv_width :: jsnum
  cv_height :: jsnum
  cv_background :: "string option"
  cv_backgroundSize :: "string option"

text \<open>
  \<open>render.options\<close>. \<open>width\<close>, \<open>height\<close> and \<open>pixelRatio\<close> have no default in \<open>Render.create\<close>:
  they are present only when the application passes them.
\<close>

record options =
  o_background :: string
  o_wireframeBackground :: string
  o_hasBounds :: bool
  o_enabled :: bool
  o_wireframes :: bool
  o_showSleeping :: bool
  o_showDebug :: bool
  o_showBroadphase :: bool
  o_showBounds :: bool
  o_showVelocity :: bool
  o_showCollisions :: bool
  o_showSeparations :: bool
  o_showAxes :: bool
  o_showPositions :: bool
  o_showAngleIndicator :: bool
  o_showIds :: bool
  o_showShadows :: bool
  o_showVertexNumbers :: bool
  o_showConvexHulls :: bool
  o_showInternalEdges :: bool
  o_showMousePosition :: bool
  o_width :: "jsnum option"
  o_height :: "jsnum option"
  o_pixelRatio :: "jsnum option"

text \<open>
  Of the engine the renderer reads the bodies and constraints of the world
  (\<open>Composite.allBodies\<close>, \<open>Composite.allConstraints\<close>), the timestamp, and whether the
  broadphase is a \<open>Grid\<close>.
\<close>

record engine =
  e_bodies :: "ref list"
  e_constraints :: "constraint list"
  e_timestamp :: real
  e_grid :: bool

subsection \<open>The render object\<close>

text \<open>
  The scene is the part of the object graph the body passes mutate: the body objects, the
  node objects (\<open>fresh\<close> is the reference the next \<open>new Sprite()\<close> or \<open>new Path()\<close> gets) and
  the children of the layer, in the order appended.
\<close>

record scene =
  heap :: "ref \<Rightarrow> body"
  nodes :: "ref \<Rightarrow> node"
  fresh :: ref
  children :: "ref list"

text \<open>
  The overlay callback \<open>extraDraw\<close> is a closure made by one call of \<open>Render.world\<close>: it holds the
  \<open>bodies\<close>, \<open>constraints\<close> and \<open>event\<close> of that call. Two closures are different functions
  even when they hold equal values, so each carries the number of closures made before it.
\<close>

record callback =
  cb_id :: nat
  cb_bodies :: "ref list"
  cb_constraints :: "constraint list"
  cb_timestamp :: real
  cb_grid :: bool

datatype event_name = BeforeRender | AfterRender

record render =
  r_engine :: "engine option"
  r_mouse :: "mouse option"
  r_canvas :: canvas
  r_context :: ctx2d
  r_options :: options
  r_bounds :: jbounds
  r_currentBackground :: "string option"
  r_extraDraw :: "callback option"
  r_frameRequestId :: "nat option"
  r_scene :: scene
  r_handlers :: "callback list"
  r_closures :: nat
  r_events :: "(event_name \<times> real) list"

section \<open>\<open>Render.lookAt\<close>\<close>

text \<open>
  An object passed to \<open>Render.lookAt\<close> may have \<open>bounds\<close>, \<open>min\<close> and \<open>max\<close>, \<open>position\<close>, or
  \<open>x\<close> and \<open>y\<close>. A coordinate that is missing reads as \<open>undefined\<close>, which compares as \<open>NaN\<close>.
\<close>

record look_obj =
  lo_bounds :: "jbounds option"
  lo_min :: "jvec option"
  lo_max :: "jvec option"
  lo_position :: "jvec option"
  lo_x :: "jsnum option"
  lo_y :: "jsnum option"

datatype look_arg = Objects "look_obj list" | Object look_obj

definition to_num :: "jsnum option \<Rightarrow> jsnum" where
  "to_num v = (case v of None \<Rightarrow> NaN | Some x \<Rightarrow> x)"

definition obj_self :: "look_obj \<Rightarrow> jvec" where
  "obj_self ob = (to_num (lo_x ob), to_num (lo_y ob))"

definition obj_min :: "look_obj \<Rightarrow> jvec" where
  "obj_min ob =
     (case lo_bounds ob of Some b \<Rightarrow> b_min b
      | None \<Rightarrow> (case lo_min ob of Some v \<Rightarrow> v
         | None \<Rightarrow> (case lo_position ob of Some v \<Rightarrow> v | None \<Rightarrow> obj_self ob)))"

definition obj_max :: "look_obj \<Rightarrow> jvec" where
  "obj_max ob =
     (case lo_bounds ob of Some b \<Rightarrow> b_max b
      | None \<Rightarrow> (case lo_max ob of Some v \<Rightarrow> v
         | None \<Rightarrow> (case lo_position ob of Some v \<Rightarrow> v | None \<Rightarrow> obj_self ob)))"

text \<open>One round of the loop over \<open>objects\<close>.\<close>

definition look_grow :: "jbounds \<Rightarrow> look_obj \<Rightarrow> jbounds" where
  "look_grow b ob =
     (let mn = obj_min ob; mx = obj_max ob in
      \<lparr>b_min = (if js_lt (fst mn) (fst (b_min b)) then fst mn else fst (b_min b),
                if js_lt (snd mn) (snd (b_min b)) then snd mn else snd (b_min b)),
       b_max = (if js_gt (fst mx) (fst (b_max b)) then fst mx else fst (b_max b),
                if js_gt (snd mx) (snd (b_max b)) then snd mx else snd (b_max b))\<rparr>)"

fun look_union :: "jbounds \<Rightarrow> look_obj list \<Rightarrow> jbounds" where
  "look_union b [] = b"
| "look_union b (ob # obs) = look_union (look_grow b ob) obs"

definition mouse_calibrate :: "jbounds \<Rightarrow> canvas \<Rightarrow> mouse \<Rightarrow> mouse" where
  "mouse_calibrate b cv m =
     Mouse_setOffset
       (Mouse_setScale m
          (js_div (js_sub (fst (b_max b)) (fst (b_min b))) (cv_width cv),
           js_div (js_sub (snd (b_max b)) (snd (b_min b))) (cv_height cv)))
       (b_min b)"

fun look_objects :: "look_arg \<Rightarrow> look_obj list" where
  "look_objects (Objects obs) = obs"
| "look_objects (Object ob) = [ob]"

definition Render_lookAt :: "render \<Rightarrow> look_arg \<Rightarrow> jvec option \<Rightarrow> bool option \<Rightarrow> render" where
  "Render_lookAt render objects padding center =
     (let center = (case center of None \<Rightarrow> True | Some c \<Rightarrow> c);
          objects = look_objects objects;
          padding = (case padding of None \<Rightarrow> (Fin 0, Fin 0) | Some p \<Rightarrow> p);
          bounds = look_union \<lparr>b_min = (PInf, PInf), b_max = (NInf, NInf)\<rparr> objects;
          width = js_add (js_sub (fst (b_max bounds)) (fst (b_min bounds)))
                    (js_mul (Fin 2) (fst padding));
          height = js_add (js_sub (snd (b_max bounds)) (snd (b_min bounds)))
                    (js_mul (Fin 2) (snd padding));
          viewHeight = cv_height (r_canvas render);
          viewWidth = cv_width (r_canvas render);
          outerRatio = js_div viewWidth viewHeight;
          innerRatio = js_div width height;
          scaleX = (if js_gt innerRatio outerRatio then Fin 1 else js_div outerRatio innerRatio);
          scaleY = (if js_gt innerRatio outerRatio then js_div innerRatio outerRatio else Fin 1);
          min_x = fst (b_min bounds);
          max_x = js_add (fst (b_min bounds)) (js_mul width scaleX);
          min_y = snd (b_min bounds);
          max_y = js_add (snd (b_min bounds)) (js_mul height scaleY);
          dx = js_sub (js_mul width (Fin (1 / 2))) (js_mul (js_mul width scaleX) (Fin (1 / 2)));
          dy = js_sub (js_mul height (Fin (1 / 2))) (js_mul (js_mul height scaleY) (Fin (1 / 2)));
          min_x = (if center then js_add min_x dx else min_x);
          max_x = (if center then js_add max_x dx else max_x);
          min_y = (if center then js_add min_y dy else min_y);
          max_y = (if center then js_add max_y dy else max_y);
          b = \<lparr>b_min = (js_sub min_x (fst padding), js_sub min_y (snd padding)),
               b_max = (js_sub max_x (fst padding), js_sub max_y (snd padding))\<rparr>
      in render\<lparr>r_options := (r_options render)\<lparr>o_hasBounds := True\<rparr>,
                r_bounds := b,
                r_mouse := map_option (mouse_calibrate b (r_canvas render)) (r_mouse render)\<rparr>)"

text \<open>The invariant the data model asks of view bounds.\<close>

definition view_bounds_ok :: "jbounds \<Rightarrow> bool" where
  "view_bounds_ok b = (js_ge (fst (b_max b)) (fst (b_min b)) \<and> js_ge (snd (b_max b)) (snd (b_min b)))"


text \<open>An object that has none of the fields \<open>Render.lookAt\<close> looks for.\<close>

definition featureless :: "look_obj \<Rightarrow> bool" where
  "featureless ob =
     (lo_bounds ob = None \<and> lo_min ob = None \<and> lo_max ob = None \<and> lo_position ob = None
      \<and> lo_x ob = None \<and> lo_y ob = None)"

section \<open>\<open>Render.constraints\<close>\<close>

definition Common_clamp :: "real \<Rightarrow> real \<Rightarrow> real \<Rightarrow> real" where
  "Common_clamp v lo hi = (if v < lo then lo else if v > hi then hi else v)"

definition spring_coils :: "constraint \<Rightarrow> nat" where
  "spring_coils c = nat \<lceil>Common_clamp (c_length c / 5) 12 20\<rceil>"

text \<open>The \<open>lineTo\<close> of round \<open>j\<close> of the spring loop.\<close>

definition spring_lineTo :: "vec \<Rightarrow> vec \<Rightarrow> vec \<Rightarrow> nat \<Rightarrow> nat \<Rightarrow> canvas_op" where
  "spring_lineTo start delta normal coils j =
     (let offset = (if j mod 2 = 0 then 1 else - 1) in
      LineTo (fst start + fst delta * (real j / real coils) + fst normal * offset * 4)
             (snd start + snd delta * (real j / real coils) + snd normal * offset * 4))"

definition spring_ops :: "constraint \<Rightarrow> vec \<Rightarrow> vec \<Rightarrow> canvas_op list" where
  "spring_ops c start end =
     (let delta = Vector_sub end start;
          normal = Vector_perp (Vector_normalise delta);
          coils = spring_coils c
      in map (spring_lineTo start delta normal coils) [1..<coils])"

text \<open>An anchor in world coordinates: added to the position of the body that owns it.\<close>

definition anchor_world :: "(ref \<Rightarrow> body) \<Rightarrow> ref option \<Rightarrow> vec \<Rightarrow> vec" where
  "anchor_world h b p = (case b of Some r \<Rightarrow> Vector_add (position (h r)) p | None \<Rightarrow> p)"

text \<open>
  One round of the loop of \<open>Render.constraints\<close>. For a pin \<open>end\<close> is never assigned, so
  drawing its anchors reads \<open>end.x\<close> of \<open>undefined\<close> and throws, after the first \<open>arc\<close>.
\<close>

definition constraint_draw :: "(ref \<Rightarrow> body) \<Rightarrow> constraint \<Rightarrow> ctx2d \<Rightarrow> ctx2d res" where
  "constraint_draw h c ctx =
     (if \<not> c_visible c \<or> c_pointA c = None \<or> c_pointB c = None then Ok ctx
      else
        let start = anchor_world h (c_bodyA c) (the (c_pointA c));
            end = (if c_type c = PinT then None
                   else Some (anchor_world h (c_bodyB c) (the (c_pointB c))));
            shape = (case end of
                       None \<Rightarrow> [BeginPath, Arc (fst start) (snd start) 3 0 (2 * pi), ClosePath]
                     | Some e \<Rightarrow>
                         [BeginPath, MoveTo (fst start) (snd start)]
                         @ (if c_type c = SpringT then spring_ops c start e else [])
                         @ [LineTo (fst e) (snd e)]);
            stroke = (if c_lineWidth c \<noteq> 0
                      then [SetLineWidth (c_lineWidth c), SetStrokeStyle (c_strokeStyle c), Stroke]
                      else []);
            ctx = ctx @ shape @ stroke
        in if c_anchors c then
             (let ctx = ctx @ [SetFillStyle (c_strokeStyle c), BeginPath,
                               Arc (fst start) (snd start) 3 0 (2 * pi)]
              in case end of
                   None \<Rightarrow> Fault TypeError ctx
                 | Some e \<Rightarrow> Ok (ctx @ [Arc (fst e) (snd e) 3 0 (2 * pi), ClosePath, Fill]))
           else Ok ctx)"

text \<open>A \<open>for\<close> loop over a list whose body may throw.\<close>

fun for_each :: "('a \<Rightarrow> 's \<Rightarrow> 's res) \<Rightarrow> 'a list \<Rightarrow> 's \<Rightarrow> 's res" where
  "for_each f [] s = Ok s"
| "for_each f (x # xs) s = and_then (f x s) (for_each f xs)"

definition Render_constraints :: "(ref \<Rightarrow> body) \<Rightarrow> constraint list \<Rightarrow> ctx2d \<Rightarrow> ctx2d res" where
  "Render_constraints h constraints ctx = for_each (constraint_draw h) constraints ctx"



section \<open>The body passes: \<open>Render.bodies\<close>, \<open>Render.bodyWireframes\<close>, \<open>Render.bodyConvexHulls\<close>\<close>

subsection \<open>The pose of a part\<close>

text \<open>\<open>Math.round\<close> rounds to the nearest integer, a half towards \<open>+Infinity\<close>.\<close>

definition Math_round :: "real \<Rightarrow> real" where
  "Math_round x = of_int \<lfloor>x + 1 / 2\<rfloor>"

definition part_pos :: "body \<Rightarrow> vec" where
  "part_pos part =
     (Math_round (fst (position part) * 10) / 10, Math_round (snd (position part) * 10) / 10)"

definition part_rotate :: "body \<Rightarrow> real" where
  "part_rotate part = Math_round (180 * angle part * 10 / pi) / 10"

subsection \<open>Nodes in the scene\<close>

text \<open>\<open>s.attr(...)\<close> on the node that \<open>s\<close> refers to.\<close>

definition node_attr :: "ref \<Rightarrow> (node \<Rightarrow> node) \<Rightarrow> scene \<Rightarrow> scene" where
  "node_attr s f sc = sc\<lparr>nodes := (nodes sc)(s := f (nodes sc s))\<rparr>"

text \<open>
  \<open>s = new Sprite()\<close> or \<open>new Path()\<close> with its first attributes \<open>n\<close>, then
  \<open>part.spriteNode = s\<close> and \<open>layer.append(s)\<close>.
\<close>

definition adopt :: "ref \<Rightarrow> node \<Rightarrow> scene \<Rightarrow> scene" where
  "adopt pr n sc =
     (let s = fresh sc in
      sc\<lparr>heap := (heap sc)(pr := (heap sc pr)\<lparr>spriteNode := Some s\<rparr>),
         nodes := (nodes sc)(s := n),
         fresh := Suc s,
         children := children sc @ [s]\<rparr>)"

definition point_of :: "vertex \<Rightarrow> vec" where
  "point_of v = (v_x v, v_y v)"

text \<open>
  \<open>part.render.sprite && (part.render.sprite.texture ||
     part.render.sprite.attrs && part.render.sprite.attrs.textures)\<close>
\<close>

definition has_texture :: "sprite option \<Rightarrow> bool" where
  "has_texture sp =
     (case sp of None \<Rightarrow> False
      | Some sprite \<Rightarrow>
          nonempty (sp_texture sprite)
          \<or> (case sp_attrs sprite of None \<Rightarrow> False | Some a \<Rightarrow> nonempty (a_textures a)))"

definition sprite_node :: "sprite \<Rightarrow> vec \<Rightarrow> real \<Rightarrow> node" where
  "sprite_node sprite p r =
     (let n = attr_pose p r
                (attr_other [(''anchor'', Pair (sp_xOffset sprite) (sp_yOffset sprite)),
                             (''scale'', Pair (sp_xScale sprite) (sp_yScale sprite))]
                   (new_node Sprite))
      in if nonempty (sp_texture sprite)
         then attr_other [(''textures'', Textures [the (sp_texture sprite)])] n
         else n)"

definition circle_node :: "body \<Rightarrow> vec \<Rightarrow> real \<Rightarrow> node" where
  "circle_node part p r =
     attr_pose p r
       (attr_other [(''anchor'', Num (1 / 2)),
                    (''size'', Pair (2 * circleRadius part) (2 * circleRadius part)),
                    (''borderRadius'', Num (circleRadius part)),
                    (''bgcolor'', Str (fillStyle part))]
          (new_node Sprite))"

definition path_node :: "vec list \<Rightarrow> (string \<times> attr_val) \<Rightarrow> vec \<Rightarrow> real \<Rightarrow> node" where
  "path_node d colour p r =
     attr_pose p r (attr_other [(''anchor'', Num (1 / 2)), (''path'', PathD d), colour] (new_node Path))"

subsection \<open>\<open>Render.bodies\<close>\<close>

text \<open>
  The choice of the node \<open>s\<close> of a part (the chain of \<open>if\<close>s on \<open>part.spriteNode\<close>): the cached
  node gets the pose; without one a node is made, by the first shape kind that applies.
  Destructuring \<open>vertices[0]\<close> of an empty vertex list throws.
\<close>

definition bodies_node :: "ref \<Rightarrow> scene \<Rightarrow> scene res" where
  "bodies_node pr sc =
     (let part = heap sc pr; pos = part_pos part; rotate = part_rotate part in
      case spriteNode part of
        Some s \<Rightarrow> Ok (node_attr s (attr_pose pos rotate) sc)
      | None \<Rightarrow>
          if has_texture (render_sprite part) then
            Ok (adopt pr (sprite_node (the (render_sprite part)) pos rotate) sc)
          else if circleRadius part \<noteq> 0 then
            Ok (adopt pr (circle_node part pos rotate) sc)
          else
            (case vertices part of
               [] \<Rightarrow> Fault TypeError sc
             | v0 # vs \<Rightarrow>
                 Ok (adopt pr
                       (path_node (point_of v0 # map point_of vs)
                          (''fillColor'', Str (fillStyle part)) pos rotate) sc)))"

text \<open>\<open>if(part.render.sprite && part.render.sprite.attrs) s.attr(part.render.sprite.attrs)\<close>\<close>

definition sprite_attrs_of :: "body \<Rightarrow> sprite_attrs option" where
  "sprite_attrs_of part = (case render_sprite part of None \<Rightarrow> None | Some sp \<Rightarrow> sp_attrs sp)"

definition apply_sprite_attrs :: "ref \<Rightarrow> ref \<Rightarrow> scene \<Rightarrow> scene" where
  "apply_sprite_attrs pr s sc =
     (case sprite_attrs_of (heap sc pr) of
        None \<Rightarrow> sc
      | Some a \<Rightarrow> node_attr s (attr_user a) sc)"

text \<open>
  The sleeping fade of the part \<open>pr\<close> of the body \<open>br\<close>, on its node \<open>s\<close>; the same statements
  end the loop body of \<open>Render.bodies\<close> and of \<open>Render.bodyWireframes\<close>.
\<close>

definition sleeping_fade :: "bool \<Rightarrow> ref \<Rightarrow> ref \<Rightarrow> ref \<Rightarrow> scene \<Rightarrow> scene" where
  "sleeping_fade showSleeping br pr s sc =
     (let part = heap sc pr in
      if showSleeping \<and> isSleeping (heap sc br) then
        (if \<not> truthy (fullOpacity part) then
           (let opacity = n_opacity (nodes sc s) in
            sc\<lparr>heap := (heap sc)(pr := part\<lparr>fullOpacity := Some opacity\<rparr>),
               nodes := (nodes sc)(s := (nodes sc s)\<lparr>n_opacity := (1 / 2) * opacity\<rparr>)\<rparr>)
         else sc)
      else if truthy (fullOpacity part) then
        sc\<lparr>heap := (heap sc)(pr := part\<lparr>fullOpacity := None\<rparr>),
           nodes := (nodes sc)(s := (nodes sc s)\<lparr>n_opacity := the (fullOpacity part)\<rparr>)\<rparr>
      else sc)"

text \<open>
  After the node has been chosen, \<open>s\<close> is the node the part now refers to.
\<close>

definition node_of :: "scene \<Rightarrow> ref \<Rightarrow> ref" where
  "node_of sc pr = the (spriteNode (heap sc pr))"

text \<open>The loop body over the parts of the body \<open>br\<close>, for one part \<open>pr\<close>.\<close>

definition bodies_part :: "bool \<Rightarrow> ref \<Rightarrow> ref \<Rightarrow> scene \<Rightarrow> scene res" where
  "bodies_part showSleeping br pr sc =
     (if \<not> visible (heap sc pr) then Ok sc
      else and_then (bodies_node pr sc)
             (\<lambda>sc. Ok (sleeping_fade showSleeping br pr (node_of sc pr)
                          (apply_sprite_attrs pr (node_of sc pr) sc))))"

text \<open>
  \<open>for(k = body.parts.length > 1 ? 1 : 0; k < body.parts.length; k++)\<close>: the parts the loop
  visits.
\<close>

definition part_refs :: "body \<Rightarrow> ref list" where
  "part_refs b = (if length (parts b) > 1 then tl (parts b) else parts b)"

definition bodies_body :: "bool \<Rightarrow> ref \<Rightarrow> scene \<Rightarrow> scene res" where
  "bodies_body showSleeping br sc =
     (if \<not> visible (heap sc br) then Ok sc
      else for_each (bodies_part showSleeping br) (part_refs (heap sc br)) sc)"

definition Render_bodies :: "options \<Rightarrow> ref list \<Rightarrow> scene \<Rightarrow> scene res" where
  "Render_bodies opts bodies sc = for_each (bodies_body (o_showSleeping opts)) bodies sc"

subsection \<open>\<open>Render.bodyWireframes\<close>\<close>

definition wire_node :: "bool \<Rightarrow> ref \<Rightarrow> scene \<Rightarrow> scene res" where
  "wire_node showInternalEdges pr sc =
     (let part = heap sc pr; pos = part_pos part; rotate = part_rotate part in
      case spriteNode part of
        Some s \<Rightarrow> Ok (node_attr s (attr_pose pos rotate) sc)
      | None \<Rightarrow>
          (case vertices part of
             [] \<Rightarrow> Fault TypeError sc
           | v0 # _ \<Rightarrow>
               (let vs = (if \<not> showInternalEdges
                          then filter (\<lambda>v. \<not> v_isInternal v) (vertices part)
                          else vertices part)
                in Ok (adopt pr
                         (path_node (point_of v0 # map point_of (tl vs))
                            (''strokeColor'', Str ''#bbb'') pos rotate) sc))))"

definition wire_part :: "bool \<Rightarrow> bool \<Rightarrow> ref \<Rightarrow> ref \<Rightarrow> scene \<Rightarrow> scene res" where
  "wire_part showInternalEdges showSleeping br pr sc =
     and_then (wire_node showInternalEdges pr sc)
       (\<lambda>sc. Ok (sleeping_fade showSleeping br pr (node_of sc pr) sc))"

definition wire_body :: "bool \<Rightarrow> bool \<Rightarrow> ref \<Rightarrow> scene \<Rightarrow> scene res" where
  "wire_body showInternalEdges showSleeping br sc =
     (if \<not> visible (heap sc br) then Ok sc
      else for_each (wire_part showInternalEdges showSleeping br) (part_refs (heap sc br)) sc)"

definition Render_bodyWireframes :: "options \<Rightarrow> ref list \<Rightarrow> scene \<Rightarrow> scene res" where
  "Render_bodyWireframes opts bodies sc =
     for_each (wire_body (o_showInternalEdges opts) (o_showSleeping opts)) bodies sc"

subsection \<open>\<open>Render.bodyConvexHulls\<close>\<close>

definition hull_body :: "ref \<Rightarrow> scene \<Rightarrow> scene res" where
  "hull_body br sc =
     (let body = heap sc br; pos = part_pos body; rotate = part_rotate body in
      if \<not> visible body \<or> length (parts body) = 1 then Ok sc
      else
        (case spriteNode body of
           Some s \<Rightarrow> Ok (node_attr s (attr_pose pos rotate) sc)
         | None \<Rightarrow>
             (case vertices body of
                [] \<Rightarrow> Fault TypeError sc
              | v0 # vs \<Rightarrow>
                  Ok (adopt br
                        (path_node ((0, 0) # map (\<lambda>v. Vector_sub (point_of v) (point_of v0)) vs)
                           (''strokeColor'', Str ''rgba(255,255,255,0.2)'') pos rotate) sc))))"

definition Render_bodyConvexHulls :: "ref list \<Rightarrow> scene \<Rightarrow> scene res" where
  "Render_bodyConvexHulls bodies sc = for_each hull_body bodies sc"


section \<open>\<open>Render.create\<close>\<close>

text \<open>
  The argument of \<open>Render.create\<close>. \<open>Common.extend\<close> merges the \<open>options\<close> object of the
  application over the defaults; \<open>co_options\<close> is that merge, as a function on the defaults.
  The body objects and the layer's children exist before the renderer does: they are the
  scene the renderer starts with.
\<close>

record layer =
  l_canvas :: "canvas option"

record create_options =
  co_engine :: "engine option"
  co_layer :: "layer option"
  co_mouse :: "mouse option"
  co_bounds :: "jbounds option"
  co_options :: "options \<Rightarrow> options"

definition default_options :: "bool \<Rightarrow> options" where
  "default_options hasBounds =
     \<lparr>o_background = ''#18181d'', o_wireframeBackground = ''#0f0f13'',
      o_hasBounds = hasBounds, o_enabled = True, o_wireframes = True, o_showSleeping = True,
      o_showDebug = False, o_showBroadphase = False, o_showBounds = False,
      o_showVelocity = False, o_showCollisions = False, o_showSeparations = False,
      o_showAxes = False, o_showPositions = False, o_showAngleIndicator = False,
      o_showIds = False, o_showShadows = False, o_showVertexNumbers = False,
      o_showConvexHulls = False, o_showInternalEdges = False, o_showMousePosition = False,
      o_width = None, o_height = None, o_pixelRatio = None\<rparr>"

definition Render_create :: "scene \<Rightarrow> create_options option \<Rightarrow> js_error + render" where
  "Render_create sc options =
     (case options of
        None \<Rightarrow> Inl TypeError
      | Some opts \<Rightarrow>
          (case co_layer opts of
             None \<Rightarrow> Inl TypeError
           | Some layer \<Rightarrow>
               (case l_canvas layer of
                  None \<Rightarrow> Inl TypeError
                | Some canvas \<Rightarrow>
                    Inr \<lparr>r_engine = co_engine opts,
                         r_mouse = co_mouse opts,
                         r_canvas = canvas,
                         r_context = [],
                         r_options = co_options opts (default_options (co_bounds opts \<noteq> None)),
                         r_bounds = (case co_bounds opts of
                                       Some b \<Rightarrow> b
                                     | None \<Rightarrow> \<lparr>b_min = (Fin 0, Fin 0),
                                                 b_max = (cv_width canvas, cv_height canvas)\<rparr>),
                         r_currentBackground = None,
                         r_extraDraw = None,
                         r_frameRequestId = None,
                         r_scene = sc,
                         r_handlers = [],
                         r_closures = 0,
                         r_events = []\<rparr>)))"

text \<open>
  The argument gives no drawing target: the options object is missing, or it has no layer, or
  the layer has no canvas.
\<close>

definition lacks_target :: "create_options option \<Rightarrow> bool" where
  "lacks_target options =
     (case options of
        None \<Rightarrow> True
      | Some opts \<Rightarrow> (case co_layer opts of None \<Rightarrow> True | Some layer \<Rightarrow> l_canvas layer = None))"

section \<open>\<open>Render.world\<close> and the overlay callback\<close>

subsection \<open>View bounds\<close>

definition Bounds_overlaps :: "vec \<times> vec \<Rightarrow> jbounds \<Rightarrow> bool" where
  "Bounds_overlaps a b =
     (js_le (Fin (fst (fst a))) (fst (b_max b)) \<and> js_ge (Fin (fst (snd a))) (fst (b_min b))
      \<and> js_ge (Fin (snd (snd a))) (snd (b_min b)) \<and> js_le (Fin (snd (fst a))) (snd (b_max b)))"

definition Bounds_contains :: "jbounds \<Rightarrow> vec \<Rightarrow> bool" where
  "Bounds_contains b p =
     (js_ge (Fin (fst p)) (fst (b_min b)) \<and> js_le (Fin (fst p)) (fst (b_max b))
      \<and> js_ge (Fin (snd p)) (snd (b_min b)) \<and> js_le (Fin (snd p)) (snd (b_max b)))"

definition Render_startViewTransform :: "render \<Rightarrow> render" where
  "Render_startViewTransform render =
     (let b = r_bounds render;
          boundsWidth = js_sub (fst (b_max b)) (fst (b_min b));
          boundsHeight = js_sub (snd (b_max b)) (snd (b_min b));
          boundsScaleX = js_div boundsWidth (to_num (o_width (r_options render)));
          boundsScaleY = js_div boundsHeight (to_num (o_height (r_options render)))
      in render\<lparr>r_context := r_context render
           @ [Scale (js_div (Fin 1) boundsScaleX) (js_div (Fin 1) boundsScaleY),
              Translate (js_neg (fst (b_min b))) (js_neg (snd (b_min b)))]\<rparr>)"

definition Render_endViewTransform :: "render \<Rightarrow> render" where
  "Render_endViewTransform render =
     (let pr = to_num (o_pixelRatio (r_options render)) in
      render\<lparr>r_context := r_context render @ [SetTransform pr (Fin 0) (Fin 0) pr (Fin 0) (Fin 0)]\<rparr>)"

subsection \<open>Background\<close>

definition is_image :: "string \<Rightarrow> bool" where
  "is_image s = (drop (length s - 3) s \<in> set [''jpg'', ''gif'', ''png''])"

definition applyBackground :: "render \<Rightarrow> string \<Rightarrow> render" where
  "applyBackground render background =
     (let cssBackground = (if is_image background then ''url('' @ background @ '')'' else background)
      in render\<lparr>r_canvas := (r_canvas render)\<lparr>cv_background := Some cssBackground,
                                               cv_backgroundSize := Some ''contain''\<rparr>,
                r_currentBackground := Some background\<rparr>)"

subsection \<open>Culling\<close>

text \<open>
  An anchor of a constraint in world coordinates, as \<open>Render.world\<close> computes it: \<open>Vector.add\<close>
  reads the coordinates of the anchor, and throws when a constraint with a body has no anchor
  (the outer \<open>None\<close>).
\<close>

definition point_world :: "(ref \<Rightarrow> body) \<Rightarrow> ref option \<Rightarrow> vec option \<Rightarrow> vec option option" where
  "point_world h b p =
     (case b of
        None \<Rightarrow> Some p
      | Some r \<Rightarrow> (case p of None \<Rightarrow> None | Some q \<Rightarrow> Some (Some (Vector_add (position (h r)) q))))"

definition constraint_in_view :: "jbounds \<Rightarrow> vec option \<Rightarrow> vec option \<Rightarrow> bool" where
  "constraint_in_view b pa pb =
     (case pa of None \<Rightarrow> False
      | Some a \<Rightarrow> (case pb of None \<Rightarrow> False
          | Some c \<Rightarrow> Bounds_contains b a \<or> Bounds_contains b c))"

fun cull_constraints :: "(ref \<Rightarrow> body) \<Rightarrow> jbounds \<Rightarrow> constraint list \<Rightarrow> constraint list option" where
  "cull_constraints h b [] = Some []"
| "cull_constraints h b (c # cs) =
     (case point_world h (c_bodyA c) (c_pointA c) of
        None \<Rightarrow> None
      | Some pa \<Rightarrow>
          (case point_world h (c_bodyB c) (c_pointB c) of
             None \<Rightarrow> None
           | Some pb \<Rightarrow>
               (case cull_constraints h b cs of
                  None \<Rightarrow> None
                | Some kept \<Rightarrow> Some (if constraint_in_view b pa pb then c # kept else kept))))"

record frame =
  f_bodies :: "ref list"
  f_constraints :: "constraint list"

definition world_cull :: "render \<Rightarrow> engine \<Rightarrow> frame option" where
  "world_cull render engine =
     (if o_hasBounds (r_options render) then
        (case cull_constraints (heap (r_scene render)) (r_bounds render) (e_constraints engine) of
           None \<Rightarrow> None
         | Some cs \<Rightarrow>
             Some \<lparr>f_bodies = filter (\<lambda>r. Bounds_overlaps (body_bounds (heap (r_scene render) r))
                                             (r_bounds render)) (e_bodies engine),
                   f_constraints = cs\<rparr>)
      else Some \<lparr>f_bodies = e_bodies engine, f_constraints = e_constraints engine\<rparr>)"

subsection \<open>Main pass\<close>

definition on_scene :: "(scene \<Rightarrow> scene res) \<Rightarrow> render \<Rightarrow> render res" where
  "on_scene f render =
     (case f (r_scene render) of
        Ok sc \<Rightarrow> Ok (render\<lparr>r_scene := sc\<rparr>)
      | Fault e sc \<Rightarrow> Fault e (render\<lparr>r_scene := sc\<rparr>))"

definition begin_path :: "render \<Rightarrow> render" where
  "begin_path render = render\<lparr>r_context := r_context render @ [BeginPath]\<rparr>"

definition main_pass :: "ref list \<Rightarrow> render \<Rightarrow> render res" where
  "main_pass bodies render =
     (let options = r_options render in
      if \<not> o_wireframes options then on_scene (Render_bodies options bodies) render
      else
        and_then
          (if o_showConvexHulls options
           then on_scene (Render_bodyConvexHulls bodies) (begin_path render)
           else Ok render)
          (\<lambda>render. on_scene (Render_bodyWireframes options bodies) (begin_path render)))"

subsection \<open>Scheduling the overlay pass\<close>

definition schedule :: "engine \<Rightarrow> frame \<Rightarrow> render \<Rightarrow> render" where
  "schedule engine fr render =
     (if r_extraDraw render = None then
        (let extraDraw = \<lparr>cb_id = r_closures render, cb_bodies = f_bodies fr,
                          cb_constraints = f_constraints fr,
                          cb_timestamp = e_timestamp engine, cb_grid = e_grid engine\<rparr>
         in render\<lparr>r_handlers := r_handlers render @ [extraDraw],
                   r_extraDraw := Some extraDraw,
                   r_closures := Suc (r_closures render)\<rparr>)
      else render)"

text \<open>
  \<open>Events.trigger(render, name, event)\<close> calls the subscribers of the event with the render
  object as it is at that moment; the trigger is kept in the list of events.
\<close>

definition Events_trigger :: "event_name \<Rightarrow> real \<Rightarrow> render \<Rightarrow> render" where
  "Events_trigger name timestamp render =
     render\<lparr>r_events := r_events render @ [(name, timestamp)]\<rparr>"

text \<open>
  The start of \<open>Render.world\<close>: trigger \<open>beforeRender\<close>, and apply the background if it has
  changed.
\<close>

definition world_begin :: "engine \<Rightarrow> render \<Rightarrow> render" where
  "world_begin engine render =
     (let options = r_options render;
          background = (if o_wireframes options then o_wireframeBackground options
                        else o_background options);
          render = Events_trigger BeforeRender (e_timestamp engine) render
      in if r_currentBackground render \<noteq> Some background
         then applyBackground render background else render)"

text \<open>With bounds: transform the view and update the mouse.\<close>

definition world_view :: "render \<Rightarrow> render" where
  "world_view render =
     (if o_hasBounds (r_options render)
      then (let render = Render_startViewTransform render
            in render\<lparr>r_mouse := map_option
                 (mouse_calibrate (r_bounds render) (r_canvas render)) (r_mouse render)\<rparr>)
      else render)"

definition Render_world :: "render \<Rightarrow> render res" where
  "Render_world render =
     (case r_engine render of
        None \<Rightarrow> Fault TypeError render
      | Some engine \<Rightarrow>
          (let render = world_begin engine render in
           case world_cull render engine of
             None \<Rightarrow> Fault TypeError render
           | Some fr \<Rightarrow>
               and_then (main_pass (f_bodies fr) (world_view render))
                 (\<lambda>render. Ok (schedule engine fr render))))"

subsection \<open>The overlay pass\<close>

text \<open>
  \<open>Render.mousePosition\<close> sets the fill style and then reads \<open>mouse.position\<close>: without a
  mouse it throws.
\<close>

definition Render_mousePosition :: "mouse option \<Rightarrow> ctx2d \<Rightarrow> ctx2d res" where
  "Render_mousePosition mouse c =
     (let c = c @ [SetFillStyle ''rgba(255,255,255,0.8)''] in
      case mouse of
        None \<Rightarrow> Fault TypeError c
      | Some m \<Rightarrow>
          Ok (c @ [FillText (MouseLabel (fst (m_position m)) (snd (m_position m)))
                     (js_add (fst (m_position m)) (Fin 5))
                     (js_sub (snd (m_position m)) (Fin 5))]))"

text \<open>
  The other overlay renderers draw on the context from the bodies, the pairs and the engine's
  metrics, and write nothing but the context. Their drawing is not needed here: they are a
  parameter, any functions from the closure and the render object to the new context or a
  fault. (\<open>Render.debug\<close> also caches its text on the render object; nothing else reads it.)
\<close>

datatype overlay =
    BodyBounds | BodyAxes | BodyPositions | BodyVelocity | BodyIds
  | Separations | Collisions | VertexNumbers | GridLines | DebugText

type_synonym overlays = "overlay \<Rightarrow> callback \<Rightarrow> render \<Rightarrow> ctx2d res"

definition run_overlay :: "bool \<Rightarrow> (render \<Rightarrow> ctx2d res) \<Rightarrow> render \<Rightarrow> render res" where
  "run_overlay enabled draw render =
     (if enabled then
        (case draw render of
           Ok c \<Rightarrow> Ok (render\<lparr>r_context := c\<rparr>)
         | Fault e c \<Rightarrow> Fault e (render\<lparr>r_context := c\<rparr>))
      else Ok render)"

text \<open>The statements of \<open>extraDraw\<close> that draw, in the order written.\<close>

definition overlay_steps :: "overlays \<Rightarrow> callback \<Rightarrow> (render \<Rightarrow> render res) list" where
  "overlay_steps ov cb =
     [\<lambda>r. run_overlay (o_showBounds (r_options r)) (ov BodyBounds cb) r,
      \<lambda>r. run_overlay (o_showAxes (r_options r) \<or> o_showAngleIndicator (r_options r))
             (ov BodyAxes cb) r,
      \<lambda>r. run_overlay (o_showPositions (r_options r)) (ov BodyPositions cb) r,
      \<lambda>r. run_overlay (o_showVelocity (r_options r)) (ov BodyVelocity cb) r,
      \<lambda>r. run_overlay (o_showIds (r_options r)) (ov BodyIds cb) r,
      \<lambda>r. run_overlay (o_showSeparations (r_options r)) (ov Separations cb) r,
      \<lambda>r. run_overlay (o_showCollisions (r_options r)) (ov Collisions cb) r,
      \<lambda>r. run_overlay (o_showVertexNumbers (r_options r)) (ov VertexNumbers cb) r,
      \<lambda>r. run_overlay (o_showMousePosition (r_options r))
             (\<lambda>r. Render_mousePosition (r_mouse r) (r_context r)) r,
      \<lambda>r. run_overlay True
             (\<lambda>r. Render_constraints (heap (r_scene r)) (cb_constraints cb) (r_context r)) r,
      \<lambda>r. run_overlay (o_showBroadphase (r_options r) \<and> cb_grid cb) (ov GridLines cb) r,
      \<lambda>r. run_overlay (o_showDebug (r_options r)) (ov DebugText cb) r]"

text \<open>
  The end of \<open>extraDraw\<close>, statement by statement: revert the view transform,
  \<open>layer.off('update', extraDraw)\<close> and \<open>delete render.extraDraw\<close>; then, on the render object
  so released, trigger \<open>afterRender\<close>.
\<close>

definition extraDraw_release :: "callback \<Rightarrow> render \<Rightarrow> render" where
  "extraDraw_release cb render =
     (let render = (if o_hasBounds (r_options render) then Render_endViewTransform render
                    else render);
          render = render\<lparr>r_handlers := remove1 cb (r_handlers render)\<rparr>
      in render\<lparr>r_extraDraw := None\<rparr>)"

definition extraDraw_end :: "callback \<Rightarrow> render \<Rightarrow> render" where
  "extraDraw_end cb render =
     Events_trigger AfterRender (cb_timestamp cb) (extraDraw_release cb render)"

definition extraDraw :: "overlays \<Rightarrow> callback \<Rightarrow> render \<Rightarrow> render res" where
  "extraDraw ov cb render =
     and_then (for_each (\<lambda>step. step) (overlay_steps ov cb) render)
       (\<lambda>render. Ok (extraDraw_end cb render))"

text \<open>
  The layer's \<open>update\<close> signal calls the handlers registered when it fires; an exception in a
  handler ends the dispatch.
\<close>

definition layer_update :: "overlays \<Rightarrow> render \<Rightarrow> render res" where
  "layer_update ov render = for_each (extraDraw ov) (r_handlers render) render"

subsection \<open>Runs\<close>

text \<open>
  What happens to a renderer over time: frames (\<open>Render.world\<close>) and \<open>update\<close> signals of the
  layer, in any order. An exception ends the frame or the dispatch it is raised in and leaves
  the state it was raised in; the next action starts from there.
\<close>

datatype action = Frame | Update

fun step :: "overlays \<Rightarrow> action \<Rightarrow> render \<Rightarrow> render" where
  "step ov Frame render = state_of (Render_world render)"
| "step ov Update render = state_of (layer_update ov render)"

fun run :: "overlays \<Rightarrow> action list \<Rightarrow> render \<Rightarrow> render" where
  "run ov [] render = render"
| "run ov (a # as) render = run ov as (step ov a render)"

definition count_events :: "event_name \<Rightarrow> render \<Rightarrow> nat" where
  "count_events e render = length (filter (\<lambda>ev. fst ev = e) (r_events render))"

text \<open>The callbacks that are pending: registered on the layer and not yet fired.\<close>

definition pending :: "render \<Rightarrow> callback list" where
  "pending render = r_handlers render"


section \<open>Notions used in the statements about the body passes\<close>

text \<open>
  The extent of the scene: the children of the layer and the number of nodes made so far. It
  changes exactly when a node is created and appended.
\<close>

definition extent :: "scene \<Rightarrow> ref list \<times> ref" where
  "extent sc = (children sc, fresh sc)"

text \<open>A part is cached when it refers to a node.\<close>

definition cached :: "scene \<Rightarrow> ref \<Rightarrow> bool" where
  "cached sc pr = (spriteNode (heap sc pr) \<noteq> None)"

text \<open>Every part that a body pass over \<open>bs\<close> visits is cached.\<close>

definition all_cached :: "scene \<Rightarrow> ref list \<Rightarrow> bool" where
  "all_cached sc bs = (\<forall>b \<in> set bs. \<forall>p \<in> set (part_refs (heap sc b)). cached sc p)"

text \<open>
  What no body pass changes: the parts and the visibility of a body, and the node a part
  refers to once it refers to one.
\<close>

definition keeps :: "scene \<Rightarrow> scene \<Rightarrow> bool" where
  "keeps sc sc' = ((\<forall>r. parts (heap sc' r) = parts (heap sc r) \<and> visible (heap sc' r) = visible (heap sc r))
     \<and> (\<forall>r n. spriteNode (heap sc r) = Some n \<longrightarrow> spriteNode (heap sc' r) = Some n))"

text \<open>The engine wakes the body \<open>br\<close>.\<close>

definition wake :: "ref \<Rightarrow> scene \<Rightarrow> scene" where
  "wake br sc = sc\<lparr>heap := (heap sc)(br := (heap sc br)\<lparr>isSleeping := False\<rparr>)\<rparr>"

text \<open>The opacity of the node of a part.\<close>

definition node_opacity :: "scene \<Rightarrow> ref \<Rightarrow> real" where
  "node_opacity sc pr = n_opacity (nodes sc (node_of sc pr))"

text \<open>
  The opacity a part's node has before the fade touches it: that of the cached node, or the
  default of a node still to be made.
\<close>

definition pre_opacity :: "scene \<Rightarrow> ref \<Rightarrow> real" where
  "pre_opacity sc pr = (case spriteNode (heap sc pr) of Some s \<Rightarrow> n_opacity (nodes sc s) | None \<Rightarrow> 1)"

text \<open>The application's sprite attributes of a part do not set \<open>opacity\<close>.\<close>

definition attrs_keep_opacity :: "body \<Rightarrow> bool" where
  "attrs_keep_opacity part = (case sprite_attrs_of part of None \<Rightarrow> True | Some a \<Rightarrow> a_opacity a = None)"

text \<open>
  The sleeping fade on the pair of the node's opacity and \<open>part.fullOpacity\<close>, for a body that
  is shown asleep or not.
\<close>

definition fade_view :: "bool \<Rightarrow> real \<times> real option \<Rightarrow> real \<times> real option" where
  "fade_view asleep v =
     (if asleep then (if \<not> truthy (snd v) then (fst v / 2, Some (fst v)) else v)
      else if truthy (snd v) then (the (snd v), None) else v)"

text \<open>
  One visit of a part, from \<open>sc\<close> to \<open>sc'\<close>, as far as the fade is concerned: the part is cached
  afterwards and keeps a node it had; sleep flag, visibility and sprite are as before; opacity
  and \<open>fullOpacity\<close> are those of the fade.
\<close>

definition fade_step :: "bool \<Rightarrow> ref \<Rightarrow> ref \<Rightarrow> scene \<Rightarrow> scene \<Rightarrow> bool" where
  "fade_step ss br pr sc sc' =
     (spriteNode (heap sc' pr) \<noteq> None
      \<and> (\<forall>s. spriteNode (heap sc pr) = Some s \<longrightarrow> spriteNode (heap sc' pr) = Some s)
      \<and> isSleeping (heap sc' br) = isSleeping (heap sc br)
      \<and> visible (heap sc' pr) = visible (heap sc pr)
      \<and> render_sprite (heap sc' pr) = render_sprite (heap sc pr)
      \<and> (node_opacity sc' pr, fullOpacity (heap sc' pr))
          = fade_view (ss \<and> isSleeping (heap sc br)) (pre_opacity sc pr, fullOpacity (heap sc pr)))"

section \<open>Notions used in the statements about frames and the overlay pass\<close>

text \<open>
  The schedule of a render object: the handlers registered on the layer, \<open>render.extraDraw\<close>,
  the number of closures made, and the events triggered so far.
\<close>

definition sched :: "render \<Rightarrow> callback list \<times> callback option \<times> nat \<times> (event_name \<times> real) list" where
  "sched r = (r_handlers r, r_extraDraw r, r_closures r, r_events r)"

text \<open>\<open>s\<close> is \<open>r\<close> but for the context.\<close>

definition but_context :: "render \<Rightarrow> render \<Rightarrow> bool" where
  "but_context r s = (\<exists>c. s = r\<lparr>r_context := c\<rparr>)"




text \<open>Overlay renderers that draw nothing.\<close>

definition quiet_overlays :: overlays where
  "quiet_overlays kind cb r = Ok (r_context r)"

section \<open>Sample values\<close>

text \<open>Concrete inputs, on which the theorems below are exercised.\<close>

definition demo_canvas :: canvas where
  "demo_canvas =
     \<lparr>cv_width = Fin 800, cv_height = Fin 600, cv_background = None, cv_backgroundSize = None\<rparr>"

definition demo_vertices :: "vertex list" where
  "demo_vertices =
     [\<lparr>v_x = 0, v_y = 0, v_isInternal = False\<rparr>,
      \<lparr>v_x = 10, v_y = 0, v_isInternal = False\<rparr>,
      \<lparr>v_x = 10, v_y = 10, v_isInternal = False\<rparr>]"

text \<open>A triangle at \<open>(12.34, 56.78)\<close>, turned by \<open>\<pi>/4\<close>, that is its own only part.\<close>

definition demo_body :: body where
  "demo_body =
     \<lparr>position = (1234 / 100, 5678 / 100), angle = pi / 4, visible = True,
      render_sprite = None, fillStyle = ''#c44'', circleRadius = 0,
      vertices = demo_vertices, parts = [0], isSleeping = False,
      body_bounds = ((0, 0), (10, 10)), spriteNode = None, fullOpacity = None\<rparr>"

definition demo_scene :: scene where
  "demo_scene = \<lparr>heap = (\<lambda>r. demo_body), nodes = (\<lambda>s. new_node Path), fresh = 0, children = []\<rparr>"

definition demo_engine :: engine where
  "demo_engine = \<lparr>e_bodies = [0], e_constraints = [], e_timestamp = 16, e_grid = True\<rparr>"

definition demo_render :: render where
  "demo_render =
     \<lparr>r_engine = Some demo_engine, r_mouse = None, r_canvas = demo_canvas, r_context = [],
      r_options = default_options False,
      r_bounds = \<lparr>b_min = (Fin 0, Fin 0), b_max = (Fin 800, Fin 600)\<rparr>,
      r_currentBackground = None, r_extraDraw = None, r_frameRequestId = None,
      r_scene = demo_scene, r_handlers = [], r_closures = 0, r_events = []\<rparr>"

text \<open>An object with none of the fields \<open>Render.lookAt\<close> reads: \<open>{}\<close>.\<close>

definition blank_obj :: look_obj where
  "blank_obj =
     \<lparr>lo_bounds = None, lo_min = None, lo_max = None, lo_position = None,
      lo_x = None, lo_y = None\<rparr>"

text \<open>An object \<open>{min: (a, b), max: (c, d)}\<close>.\<close>

definition box_obj :: "real \<Rightarrow> real \<Rightarrow> real \<Rightarrow> real \<Rightarrow> look_obj" where
  "box_obj a b c d =
     \<lparr>lo_bounds = None, lo_min = Some (Fin a, Fin b), lo_max = Some (Fin c, Fin d),
      lo_position = None, lo_x = None, lo_y = None\<rparr>"

text \<open>
  Constraints between two free anchors: a spring of length 40, and a line whose second anchor
  is missing.
\<close>

definition demo_spring :: constraint where
  "demo_spring =
     \<lparr>c_visible = True, c_type = SpringT, c_lineWidth = 2, c_strokeStyle = ''#fff'',
      c_anchors = True, c_pointA = Some (0, 0), c_pointB = Some (40, 0),
      c_bodyA = None, c_bodyB = None, c_length = 40\<rparr>"

definition demo_half :: constraint where
  "demo_half =
     \<lparr>c_visible = True, c_type = LineT, c_lineWidth = 2, c_strokeStyle = ''#fff'',
      c_anchors = True, c_pointA = Some (0, 0), c_pointB = None,
      c_bodyA = None, c_bodyB = None, c_length = 40\<rparr>"

text \<open>The scene after a first wireframe frame: the triangle has its node, number 0.\<close>

definition demo_cached :: scene where
  "demo_cached =
     adopt 0 (path_node (map point_of demo_vertices) (''strokeColor'', Str ''#bbb'')
                (123 / 10, 568 / 10) 45) demo_scene"

text \<open>The same triangle asleep; and asleep with a textured sprite whose attributes set an opacity.\<close>

definition demo_asleep :: scene where
  "demo_asleep = demo_scene\<lparr>heap := (\<lambda>r. demo_body\<lparr>isSleeping := True\<rparr>)\<rparr>"

definition demo_tinted :: body where
  "demo_tinted =
     demo_body\<lparr>isSleeping := True,
       render_sprite := Some \<lparr>sp_texture = Some ''box.png'', sp_xOffset = 1 / 2, sp_yOffset = 1 / 2,
         sp_xScale = 1, sp_yScale = 1,
         sp_attrs = Some \<lparr>a_textures = None, a_pos = None, a_rotate = None,
                           a_opacity = Some (8 / 10), a_other = []\<rparr>\<rparr>\<rparr>"

definition demo_tinted_scene :: scene where
  "demo_tinted_scene = demo_scene\<lparr>heap := (\<lambda>r. demo_tinted)\<rparr>"


text \<open>
  The argument of \<open>Render.create\<close> that gives \<open>demo_render\<close>; a render object with bounds, with
  \<open>showMousePosition\<close> and \<open>showDebug\<close> set and no mouse, over a world with one spring; and an
  overlay callback.
\<close>

definition demo_setup :: create_options where
  "demo_setup =
     \<lparr>co_engine = Some demo_engine, co_layer = Some \<lparr>l_canvas = Some demo_canvas\<rparr>,
      co_mouse = None, co_bounds = None, co_options = (\<lambda>options. options)\<rparr>"

definition demo_pointerless :: render where
  "demo_pointerless =
     demo_render\<lparr>r_engine := Some (demo_engine\<lparr>e_constraints := [demo_spring]\<rparr>),
       r_options := (default_options True)
         \<lparr>o_showMousePosition := True, o_showDebug := True, o_width := Some (Fin 800),
          o_height := Some (Fin 600), o_pixelRatio := Some (Fin 1)\<rparr>\<rparr>"

definition demo_callback :: callback where
  "demo_callback =
     \<lparr>cb_id = 0, cb_bodies = [0], cb_constraints = [demo_spring], cb_timestamp = 16,
      cb_grid = True\<rparr>"

section \<open>Verification: the viewport\<close>

subsection \<open>Arithmetic with the special values\<close>

lemma js_add_NaN_right [simp]: "js_add x NaN = NaN"
  by (cases x) simp_all

lemma js_mul_NaN_right [simp]: "js_mul x NaN = NaN"
  by (cases x) simp_all

lemma js_div_NaN_right [simp]: "js_div x NaN = NaN"
  by (cases x) simp_all

lemma js_lt_NaN_right [simp]: "js_lt x NaN = False"
  by (cases x) simp_all

lemma js_sub_NaN [simp]: "js_sub NaN y = NaN" "js_sub x NaN = NaN"
  by (simp_all add: js_sub_def)

lemma js_ge_NaN [simp]: "js_ge NaN y = False" "js_ge x NaN = False"
  by (simp_all add: js_ge_def js_le_def)

text \<open>The width and the height of the box that no object has grown: \<open>-Infinity\<close> or \<open>NaN\<close>.\<close>

definition void :: "jsnum \<Rightarrow> bool" where
  "void x = (x = NInf \<or> x = NaN)"

lemma void_add: "void (js_add NInf t)"
  by (cases t) (simp_all add: void_def)

lemma void_div: "void x \<Longrightarrow> void y \<Longrightarrow> js_div x y = NaN"
  by (auto simp: void_def)

lemma void_unit: "void x \<Longrightarrow> js_add PInf (js_mul x (Fin 1)) = NaN"
  by (auto simp: void_def js_inf_def)

lemma void_half:
  "void x \<Longrightarrow> js_sub (js_mul x (Fin (1 / 2))) (js_mul (js_mul x (Fin 1)) (Fin (1 / 2))) = NaN"
  by (auto simp: void_def js_inf_def js_sub_def)

lemma nonfin_sub: "\<not> finite_num (js_sub PInf t)"
  by (cases t) (simp_all add: js_sub_def finite_num_def)

lemma nonfin_NaN: "\<not> finite_num NaN"
  by (simp add: finite_num_def)

lemma look_grow_featureless: "featureless ob \<Longrightarrow> look_grow b ob = b"
  by (simp add: look_grow_def featureless_def obj_min_def obj_max_def obj_self_def to_num_def
      js_gt_def)

lemma look_union_featureless: "\<forall>ob \<in> set obs. featureless ob \<Longrightarrow> look_union b obs = b"
  by (induction obs arbitrary: b) (simp_all add: look_grow_featureless)

lemma lookAt_void:
  assumes "\<forall>ob \<in> set (look_objects objects). featureless ob"
  shows "o_hasBounds (r_options (Render_lookAt r objects padding center))"
    and "b_max (r_bounds (Render_lookAt r objects padding center)) = (NaN, NaN)"
    and "\<not> finite_num (fst (b_min (r_bounds (Render_lookAt r objects padding center))))"
    and "\<not> finite_num (snd (b_min (r_bounds (Render_lookAt r objects padding center))))"
proof -
  define p where "p = (case padding of None \<Rightarrow> (Fin 0, Fin 0) | Some q \<Rightarrow> q)"
  define w where "w = js_add NInf (js_mul (Fin 2) (fst p))"
  define h where "h = js_add NInf (js_mul (Fin 2) (snd p))"
  have vw: "void w" and vh: "void h"
    by (simp_all add: w_def h_def void_add)
  have u: "look_union \<lparr>b_min = (PInf, PInf), b_max = (NInf, NInf)\<rparr> (look_objects objects)
      = \<lparr>b_min = (PInf, PInf), b_max = (NInf, NInf)\<rparr>"
    using assms by (rule look_union_featureless)
  have ir: "js_div w h = NaN"
    using vw vh by (rule void_div)
  show "o_hasBounds (r_options (Render_lookAt r objects padding center))"
    by (simp add: Render_lookAt_def Let_def)
  show "b_max (r_bounds (Render_lookAt r objects padding center)) = (NaN, NaN)"
    using ir void_unit[OF vh]
    by (simp add: Render_lookAt_def Let_def u js_gt_def js_sub_def[of NInf PInf]
        p_def[symmetric] w_def[symmetric] h_def[symmetric])
  show "\<not> finite_num (fst (b_min (r_bounds (Render_lookAt r objects padding center))))"
    using ir
    by (simp add: Render_lookAt_def Let_def u js_gt_def js_sub_def[of NInf PInf]
        p_def[symmetric] w_def[symmetric] h_def[symmetric] nonfin_sub nonfin_NaN)
  show "\<not> finite_num (snd (b_min (r_bounds (Render_lookAt r objects padding center))))"
    using ir void_half[OF vh]
    by (simp add: Render_lookAt_def Let_def u js_gt_def js_sub_def[of NInf PInf]
        p_def[symmetric] w_def[symmetric] h_def[symmetric] nonfin_sub nonfin_NaN)
qed


subsection \<open>Nothing to look at\<close>

text \<open>
  Claim C10. When \<open>Render.lookAt\<close> is given the empty list, or objects none of which has
  \<open>bounds\<close>, \<open>min\<close>, \<open>max\<close>, \<open>position\<close>, \<open>x\<close> or \<open>y\<close>, then for every padding and either
  value of \<open>center\<close> it sets \<open>options.hasBounds\<close>, every coordinate it writes into
  \<open>render.bounds\<close> is \<open>Infinity\<close>, \<open>-Infinity\<close> or \<open>NaN\<close> (the maximum is \<open>NaN\<close> in both
  coordinates), and neither \<open>max.x \<ge> min.x\<close> nor \<open>max.y \<ge> min.y\<close> holds afterwards.
\<close>

theorem lookAt_nothing_to_look_at:
  assumes "\<forall>ob \<in> set (look_objects objects). featureless ob"
  shows "o_hasBounds (r_options (Render_lookAt r objects padding center))
    \<and> \<not> finite_num (fst (b_min (r_bounds (Render_lookAt r objects padding center))))
    \<and> \<not> finite_num (snd (b_min (r_bounds (Render_lookAt r objects padding center))))
    \<and> \<not> finite_num (fst (b_max (r_bounds (Render_lookAt r objects padding center))))
    \<and> \<not> finite_num (snd (b_max (r_bounds (Render_lookAt r objects padding center))))
    \<and> \<not> js_ge (fst (b_max (r_bounds (Render_lookAt r objects padding center))))
              (fst (b_min (r_bounds (Render_lookAt r objects padding center))))
    \<and> \<not> js_ge (snd (b_max (r_bounds (Render_lookAt r objects padding center))))
              (snd (b_min (r_bounds (Render_lookAt r objects padding center))))
    \<and> \<not> view_bounds_ok (r_bounds (Render_lookAt r objects padding center))"
proof -
  note f = lookAt_void [OF assms, of r padding center]
  have m: "fst (b_max (r_bounds (Render_lookAt r objects padding center))) = NaN"
      "snd (b_max (r_bounds (Render_lookAt r objects padding center))) = NaN"
    by (simp_all add: f(2))
  show ?thesis
    using f(1) f(3) f(4) by (simp add: m nonfin_NaN view_bounds_ok_def)
qed

theorem lookAt_nothing_to_look_at_witness:
  "featureless blank_obj
   \<and> o_hasBounds (r_options (Render_lookAt demo_render (Objects [blank_obj, blank_obj]) None None))
   \<and> \<not> view_bounds_ok (r_bounds (Render_lookAt demo_render (Objects [blank_obj, blank_obj]) None None))
   \<and> \<not> view_bounds_ok (r_bounds (Render_lookAt demo_render (Objects []) (Some (Fin 5, Fin 5)) (Some False)))
   \<and> r_bounds (Render_lookAt demo_render (Objects []) None None)
       = \<lparr>b_min = (NaN, NaN), b_max = (NaN, NaN)\<rparr>"
proof -
  have b: "featureless blank_obj"
    by (simp add: featureless_def blank_obj_def)
  have 1: "\<forall>ob \<in> set (look_objects (Objects [blank_obj, blank_obj])). featureless ob"
    using b by simp
  have 2: "\<forall>ob \<in> set (look_objects (Objects [])). featureless ob"
    by simp
  have 3: "r_bounds (Render_lookAt demo_render (Objects []) None None)
       = \<lparr>b_min = (NaN, NaN), b_max = (NaN, NaN)\<rparr>"
    by (simp add: Render_lookAt_def Let_def js_gt_def js_sub_def js_inf_def demo_render_def
        demo_canvas_def)
  show ?thesis
    using b 3 lookAt_nothing_to_look_at [OF 1, of demo_render None None]
      lookAt_nothing_to_look_at [OF 2, of demo_render "Some (Fin 5, Fin 5)" "Some False"]
    by simp
qed


section \<open>Verification: the pose of a part\<close>

lemma bodies_node_pose:
  "bodies_node pr sc = Ok sc' \<Longrightarrow>
   n_pos (nodes sc' (node_of sc' pr)) = part_pos (heap sc pr)
   \<and> n_rotate (nodes sc' (node_of sc' pr)) = part_rotate (heap sc pr)"
  by (auto simp: bodies_node_def Let_def node_of_def node_attr_def adopt_def attr_pose_def
      sprite_node_def circle_node_def path_node_def attr_other_def
      split: option.splits if_splits list.splits)

lemma wire_node_pose:
  "wire_node e pr sc = Ok sc' \<Longrightarrow>
   n_pos (nodes sc' (node_of sc' pr)) = part_pos (heap sc pr)
   \<and> n_rotate (nodes sc' (node_of sc' pr)) = part_rotate (heap sc pr)"
  by (auto simp: wire_node_def Let_def node_of_def node_attr_def adopt_def attr_pose_def
      path_node_def attr_other_def split: option.splits if_splits list.splits)

lemma demo_bodies_node:
  "bodies_node 0 demo_scene =
     Ok (adopt 0 (path_node (map point_of demo_vertices) (''fillColor'', Str ''#c44'')
                    (123 / 10, 568 / 10) 45) demo_scene)"
  by (simp add: bodies_node_def demo_scene_def demo_body_def demo_vertices_def has_texture_def
      Let_def part_pos_def part_rotate_def Math_round_def)

lemma demo_wire_node:
  "wire_node False 0 demo_scene =
     Ok (adopt 0 (path_node (map point_of demo_vertices) (''strokeColor'', Str ''#bbb'')
                    (123 / 10, 568 / 10) 45) demo_scene)"
  by (simp add: wire_node_def demo_scene_def demo_body_def demo_vertices_def
      Let_def part_pos_def part_rotate_def Math_round_def)

section \<open>Verification: constraints\<close>







text \<open>
  Claim C7, as the code has it. \<open>Render.constraints\<close> skips a constraint, drawing nothing and
  raising no fault, exactly when its visibility flag is false or at least one of its two
  anchors is undefined. A visible constraint is drawn (calls are made on the context) exactly
  when both anchors are defined; one defined anchor is not enough.
\<close>

theorem constraint_skipped_iff:
  "(state_of (constraint_draw h c ctx) = ctx)
     = (\<not> c_visible c \<or> c_pointA c = None \<or> c_pointB c = None)
   \<and> (constraint_draw h c ctx = Ok ctx)
     = (\<not> c_visible c \<or> c_pointA c = None \<or> c_pointB c = None)
   \<and> (length ctx < length (state_of (constraint_draw h c ctx)))
     = (c_visible c \<and> c_pointA c \<noteq> None \<and> c_pointB c \<noteq> None)"
  by (auto simp: constraint_draw_def Let_def split: option.splits)

theorem constraint_skipped_iff_witness:
  "length (state_of (constraint_draw (heap demo_scene) demo_spring [])) = 23
   \<and> constraint_draw (heap demo_scene) (demo_spring\<lparr>c_visible := False\<rparr>) [BeginPath]
       = Ok [BeginPath]"
proof -
  have "constraint_draw (heap demo_scene) (demo_spring\<lparr>c_visible := False\<rparr>) [BeginPath]
       = Ok [BeginPath]"
    using constraint_skipped_iff [of "heap demo_scene" "demo_spring\<lparr>c_visible := False\<rparr>"
        "[BeginPath]"]
    by simp
  moreover have "length (state_of (constraint_draw (heap demo_scene) demo_spring [])) = 23"
    by (simp add: constraint_draw_def demo_spring_def Let_def anchor_world_def spring_ops_def
        spring_coils_def Common_clamp_def)
  ultimately show ?thesis
    by simp
qed

text \<open>
  The claim as stated fails: this constraint is visible and its first anchor is defined, yet
  nothing is drawn for it, because its second anchor is undefined.
\<close>

theorem one_anchor_not_drawn:
  "c_visible demo_half \<and> c_pointA demo_half = Some (0, 0) \<and> c_pointB demo_half = None
   \<and> constraint_draw (heap demo_scene) demo_half [] = Ok []
   \<and> Render_constraints (heap demo_scene) [demo_half] [] = Ok []"
  by (simp add: demo_half_def constraint_draw_def Render_constraints_def)


section \<open>Verification: the node cache\<close>

text \<open>The definitions to unfold when a body pass is evaluated on a sample scene.\<close>

lemmas eval_defs = bodies_part_def bodies_node_def wire_part_def wire_node_def Let_def
  has_texture_def nonempty_def sprite_node_def circle_node_def path_node_def attr_pose_def attr_other_def
  new_node_def adopt_def node_attr_def apply_sprite_attrs_def sprite_attrs_of_def attr_user_def
  sleeping_fade_def truthy_def node_of_def node_opacity_def part_pos_def part_rotate_def
  Math_round_def demo_vertices_def point_of_def

lemma for_each_preserves:
  assumes "\<And>x s. P s \<Longrightarrow> P (state_of (f x s))" and "P s"
  shows "P (state_of (for_each f xs s))"
  using assms(2)
proof (induction xs arbitrary: s)
  case Nil
  then show ?case by simp
next
  case (Cons x xs)
  have "P (state_of (f x s))" using Cons.prems by (rule assms(1))
  then show ?case using Cons.IH by (cases "f x s") simp_all
qed

lemma keeps_refl: "keeps sc sc"
  by (simp add: keeps_def)

lemma keeps_trans: "keeps a b \<Longrightarrow> keeps b c \<Longrightarrow> keeps a c"
  by (simp add: keeps_def)

lemma keeps_node_attr: "keeps sc (node_attr s f sc)"
  by (simp add: keeps_def node_attr_def)

lemma keeps_adopt: "spriteNode (heap sc pr) = None \<Longrightarrow> keeps sc (adopt pr n sc)"
  by (auto simp: keeps_def adopt_def Let_def)

lemma keeps_fade: "keeps sc (sleeping_fade ss br pr s sc)"
  by (auto simp: keeps_def sleeping_fade_def Let_def)

lemma keeps_user: "keeps sc (apply_sprite_attrs pr s sc)"
  by (auto simp: keeps_def apply_sprite_attrs_def node_attr_def split: option.splits)

lemma keeps_bodies_node: "keeps sc (state_of (bodies_node pr sc))"
  by (auto simp: bodies_node_def Let_def keeps_node_attr keeps_adopt keeps_refl split: option.splits list.splits)

lemma keeps_wire_node: "keeps sc (state_of (wire_node e pr sc))"
  by (auto simp: wire_node_def Let_def keeps_node_attr keeps_adopt keeps_refl split: option.splits list.splits)

lemma keeps_bodies_part: "keeps sc (state_of (bodies_part ss br pr sc))"
proof (cases "bodies_node pr sc")
  case (Ok sc1)
  have 1: "keeps sc sc1" using keeps_bodies_node[of sc pr] Ok by simp
  have 2: "keeps sc1 (apply_sprite_attrs pr (node_of sc1 pr) sc1)" by (rule keeps_user)
  have 3: "keeps (apply_sprite_attrs pr (node_of sc1 pr) sc1)
     (sleeping_fade ss br pr (node_of sc1 pr) (apply_sprite_attrs pr (node_of sc1 pr) sc1))"
    by (rule keeps_fade)
  from 1 2 3 have "keeps sc (sleeping_fade ss br pr (node_of sc1 pr) (apply_sprite_attrs pr (node_of sc1 pr) sc1))"
    by (blast intro: keeps_trans)
  then show ?thesis using Ok by (simp add: bodies_part_def keeps_refl)
next
  case (Fault err sc1)
  then show ?thesis using keeps_bodies_node[of sc pr] by (simp add: bodies_part_def keeps_refl)
qed

lemma keeps_wire_part: "keeps sc (state_of (wire_part e ss br pr sc))"
proof (cases "wire_node e pr sc")
  case (Ok sc1)
  have 1: "keeps sc sc1" using keeps_wire_node[of sc e pr] Ok by simp
  have 3: "keeps sc1 (sleeping_fade ss br pr (node_of sc1 pr) sc1)"
    by (rule keeps_fade)
  from 1 3 have "keeps sc (sleeping_fade ss br pr (node_of sc1 pr) sc1)"
    by (blast intro: keeps_trans)
  then show ?thesis using Ok by (simp add: wire_part_def)
next
  case (Fault err sc1)
  then show ?thesis using keeps_wire_node[of sc e pr] by (simp add: wire_part_def)
qed

lemma keeps_for_each:
  assumes "\<And>x s. keeps s (state_of (f x s))"
  shows "keeps sc (state_of (for_each f xs sc))"
  by (rule for_each_preserves[where P="keeps sc"]) (auto intro: keeps_trans assms keeps_refl)

lemma keeps_bodies_body: "keeps sc (state_of (bodies_body ss br sc))"
  by (simp add: bodies_body_def keeps_refl keeps_for_each keeps_bodies_part)

lemma keeps_wire_body: "keeps sc (state_of (wire_body e ss br sc))"
  by (simp add: wire_body_def keeps_refl keeps_for_each keeps_wire_part)

lemma keeps_Render_bodies: "keeps sc (state_of (Render_bodies opts bs sc))"
  by (simp add: Render_bodies_def keeps_for_each keeps_bodies_body)

lemma keeps_Render_bodyWireframes: "keeps sc (state_of (Render_bodyWireframes opts bs sc))"
  by (simp add: Render_bodyWireframes_def keeps_for_each keeps_wire_body)

lemma for_each_frame:
  assumes step: "\<And>x s. x \<in> set xs \<Longrightarrow> Q s \<Longrightarrow> Q (state_of (f x s)) \<and> g (state_of (f x s)) = g s"
    and "Q s"
  shows "Q (state_of (for_each f xs s)) \<and> g (state_of (for_each f xs s)) = g s"
  using assms
proof (induction xs arbitrary: s)
  case Nil
  then show ?case by simp
next
  case (Cons x xs)
  have a: "Q (state_of (f x s)) \<and> g (state_of (f x s)) = g s"
    using Cons.prems by simp
  show ?case
  proof (cases "f x s")
    case (Ok s1)
    have "Q (state_of (for_each f xs s1)) \<and> g (state_of (for_each f xs s1)) = g s1"
      using Cons.prems(1) a Ok by (intro Cons.IH) simp_all
    then show ?thesis using a Ok by simp
  next
    case (Fault err s1)
    then show ?thesis using a by simp
  qed
qed

lemma extent_fade: "extent (sleeping_fade ss br pr s sc) = extent sc"
  by (simp add: extent_def sleeping_fade_def Let_def)

lemma extent_user: "extent (apply_sprite_attrs pr s sc) = extent sc"
  by (simp add: extent_def apply_sprite_attrs_def node_attr_def split: option.splits)

lemma bodies_node_cached:
  "spriteNode (heap sc pr) = Some s \<Longrightarrow>
   bodies_node pr sc = Ok (node_attr s (attr_pose (part_pos (heap sc pr)) (part_rotate (heap sc pr))) sc)"
  by (simp add: bodies_node_def Let_def)

lemma wire_node_cached:
  "spriteNode (heap sc pr) = Some s \<Longrightarrow>
   wire_node e pr sc = Ok (node_attr s (attr_pose (part_pos (heap sc pr)) (part_rotate (heap sc pr))) sc)"
  by (simp add: wire_node_def Let_def)

lemma extent_bodies_part:
  "spriteNode (heap sc pr) = Some s \<Longrightarrow> extent (state_of (bodies_part ss br pr sc)) = extent sc"
  by (simp add: bodies_part_def bodies_node_cached extent_fade extent_user) (simp add: extent_def node_attr_def)

lemma extent_wire_part:
  "spriteNode (heap sc pr) = Some s \<Longrightarrow> extent (state_of (wire_part e ss br pr sc)) = extent sc"
  by (simp add: wire_part_def wire_node_cached extent_fade) (simp add: extent_def node_attr_def)

lemma keeps_cached: "keeps sc sc' \<Longrightarrow> cached sc pr \<Longrightarrow> cached sc' pr"
  by (auto simp: keeps_def cached_def)

lemma keeps_part_refs: "keeps sc sc' \<Longrightarrow> part_refs (heap sc' r) = part_refs (heap sc r)"
  by (simp add: keeps_def part_refs_def)

lemma extent_bodies_body:
  assumes "\<forall>p \<in> set (part_refs (heap sc br)). cached sc p"
  shows "extent (state_of (bodies_body ss br sc)) = extent sc"
proof (cases "visible (heap sc br)")
  case True
  have "keeps sc (state_of (for_each (bodies_part ss br) (part_refs (heap sc br)) sc))
      \<and> extent (state_of (for_each (bodies_part ss br) (part_refs (heap sc br)) sc)) = extent sc"
  proof (rule for_each_frame[where Q="keeps sc"])
    fix x s assume x: "x \<in> set (part_refs (heap sc br))" and k: "keeps sc s"
    have "cached s x" using assms x k keeps_cached by blast
    then obtain n where "spriteNode (heap s x) = Some n" by (auto simp: cached_def)
    then have "extent (state_of (bodies_part ss br x s)) = extent s" by (rule extent_bodies_part)
    moreover have "keeps sc (state_of (bodies_part ss br x s))"
      using k keeps_bodies_part keeps_trans by blast
    ultimately show "keeps sc (state_of (bodies_part ss br x s)) \<and> extent (state_of (bodies_part ss br x s)) = extent s"
      by simp
  qed (rule keeps_refl)
  then show ?thesis using True by (simp add: bodies_body_def)
next
  case False
  then show ?thesis by (simp add: bodies_body_def)
qed

lemma extent_wire_body:
  assumes "\<forall>p \<in> set (part_refs (heap sc br)). cached sc p"
  shows "extent (state_of (wire_body e ss br sc)) = extent sc"
proof (cases "visible (heap sc br)")
  case True
  have "keeps sc (state_of (for_each (wire_part e ss br) (part_refs (heap sc br)) sc))
      \<and> extent (state_of (for_each (wire_part e ss br) (part_refs (heap sc br)) sc)) = extent sc"
  proof (rule for_each_frame[where Q="keeps sc"])
    fix x s assume x: "x \<in> set (part_refs (heap sc br))" and k: "keeps sc s"
    have "cached s x" using assms x k keeps_cached by blast
    then obtain n where "spriteNode (heap s x) = Some n" by (auto simp: cached_def)
    then have "extent (state_of (wire_part e ss br x s)) = extent s" by (rule extent_wire_part)
    moreover have "keeps sc (state_of (wire_part e ss br x s))"
      using k keeps_wire_part keeps_trans by blast
    ultimately show "keeps sc (state_of (wire_part e ss br x s)) \<and> extent (state_of (wire_part e ss br x s)) = extent s"
      by simp
  qed (rule keeps_refl)
  then show ?thesis using True by (simp add: wire_body_def)
next
  case False
  then show ?thesis by (simp add: wire_body_def)
qed

lemma extent_Render_bodies:
  assumes "all_cached sc bs"
  shows "extent (state_of (Render_bodies opts bs sc)) = extent sc"
proof -
  have "keeps sc (state_of (for_each (bodies_body (o_showSleeping opts)) bs sc))
      \<and> extent (state_of (for_each (bodies_body (o_showSleeping opts)) bs sc)) = extent sc"
  proof (rule for_each_frame[where Q="keeps sc"])
    fix x s assume x: "x \<in> set bs" and k: "keeps sc s"
    have "\<forall>p \<in> set (part_refs (heap s x)). cached s p"
      using assms x k by (auto simp: all_cached_def keeps_part_refs intro: keeps_cached)
    then have "extent (state_of (bodies_body (o_showSleeping opts) x s)) = extent s"
      by (rule extent_bodies_body)
    moreover have "keeps sc (state_of (bodies_body (o_showSleeping opts) x s))"
      using k keeps_bodies_body keeps_trans by blast
    ultimately show "keeps sc (state_of (bodies_body (o_showSleeping opts) x s))
        \<and> extent (state_of (bodies_body (o_showSleeping opts) x s)) = extent s" by simp
  qed (rule keeps_refl)
  then show ?thesis by (simp add: Render_bodies_def)
qed

lemma extent_Render_bodyWireframes:
  assumes "all_cached sc bs"
  shows "extent (state_of (Render_bodyWireframes opts bs sc)) = extent sc"
proof -
  let ?f = "wire_body (o_showInternalEdges opts) (o_showSleeping opts)"
  have "keeps sc (state_of (for_each ?f bs sc)) \<and> extent (state_of (for_each ?f bs sc)) = extent sc"
  proof (rule for_each_frame[where Q="keeps sc"])
    fix x s assume x: "x \<in> set bs" and k: "keeps sc s"
    have "\<forall>p \<in> set (part_refs (heap s x)). cached s p"
      using assms x k by (auto simp: all_cached_def keeps_part_refs intro: keeps_cached)
    then have "extent (state_of (?f x s)) = extent s"
      by (rule extent_wire_body)
    moreover have "keeps sc (state_of (?f x s))"
      using k keeps_wire_body keeps_trans by blast
    ultimately show "keeps sc (state_of (?f x s)) \<and> extent (state_of (?f x s)) = extent s" by simp
  qed (rule keeps_refl)
  then show ?thesis by (simp add: Render_bodyWireframes_def)
qed

lemma part_new:
  "spriteNode (heap sc pr) = None \<Longrightarrow>
   extent (state_of (bodies_node pr sc)) = extent sc
   \<or> (children (state_of (bodies_node pr sc)) = children sc @ [fresh sc]
      \<and> fresh (state_of (bodies_node pr sc)) = Suc (fresh sc)
      \<and> spriteNode (heap (state_of (bodies_node pr sc)) pr) = Some (fresh sc))"
  by (auto simp: bodies_node_def Let_def extent_def adopt_def split: list.splits)

lemma wire_new:
  "spriteNode (heap sc pr) = None \<Longrightarrow>
   extent (state_of (wire_node e pr sc)) = extent sc
   \<or> (children (state_of (wire_node e pr sc)) = children sc @ [fresh sc]
      \<and> fresh (state_of (wire_node e pr sc)) = Suc (fresh sc)
      \<and> spriteNode (heap (state_of (wire_node e pr sc)) pr) = Some (fresh sc))"
  by (auto simp: wire_node_def Let_def extent_def adopt_def split: list.splits)

lemma heap_fade_node: "spriteNode (heap (sleeping_fade ss br pr s sc) r) = spriteNode (heap sc r)"
  by (simp add: sleeping_fade_def Let_def)

lemma heap_user: "heap (apply_sprite_attrs pr s sc) = heap sc"
  by (simp add: apply_sprite_attrs_def node_attr_def split: option.splits)

lemma bodies_part_grows:
  assumes "extent (state_of (bodies_part ss br pr sc)) \<noteq> extent sc"
  shows "spriteNode (heap sc pr) = None
    \<and> children (state_of (bodies_part ss br pr sc)) = children sc @ [fresh sc]
    \<and> fresh (state_of (bodies_part ss br pr sc)) = Suc (fresh sc)
    \<and> spriteNode (heap (state_of (bodies_part ss br pr sc)) pr) = Some (fresh sc)"
proof -
  have n: "spriteNode (heap sc pr) = None"
    using assms extent_bodies_part [of sc pr _ ss br] by (cases "spriteNode (heap sc pr)") auto
  have v: "visible (heap sc pr)"
    using assms by (cases "visible (heap sc pr)") (auto simp: bodies_part_def)
  obtain sc1 where ok: "bodies_node pr sc = Ok sc1"
    using assms v by (cases "bodies_node pr sc") (auto simp: bodies_part_def bodies_node_def Let_def n split: list.splits if_splits)
  have e: "extent (state_of (bodies_part ss br pr sc)) = extent sc1"
    using ok v by (simp add: bodies_part_def extent_fade extent_user)
  have h: "spriteNode (heap (state_of (bodies_part ss br pr sc)) pr) = spriteNode (heap sc1 pr)"
    using ok v by (simp add: bodies_part_def heap_fade_node heap_user)
  show ?thesis
    using part_new [OF n] ok e h assms n by (auto simp: extent_def)
qed

lemma wire_part_grows:
  assumes "extent (state_of (wire_part e ss br pr sc)) \<noteq> extent sc"
  shows "spriteNode (heap sc pr) = None
    \<and> children (state_of (wire_part e ss br pr sc)) = children sc @ [fresh sc]
    \<and> fresh (state_of (wire_part e ss br pr sc)) = Suc (fresh sc)
    \<and> spriteNode (heap (state_of (wire_part e ss br pr sc)) pr) = Some (fresh sc)"
proof -
  have n: "spriteNode (heap sc pr) = None"
    using assms extent_wire_part [of sc pr _ e ss br] by (cases "spriteNode (heap sc pr)") auto
  obtain sc1 where ok: "wire_node e pr sc = Ok sc1"
    using assms by (cases "wire_node e pr sc") (auto simp: wire_part_def wire_node_def Let_def n split: list.splits if_splits)
  have e: "extent (state_of (wire_part e ss br pr sc)) = extent sc1"
    using ok by (simp add: wire_part_def extent_fade)
  have h: "spriteNode (heap (state_of (wire_part e ss br pr sc)) pr) = spriteNode (heap sc1 pr)"
    using ok by (simp add: wire_part_def heap_fade_node)
  show ?thesis
    using wire_new [OF n, of e] ok e h assms n by (auto simp: extent_def)
qed

lemma keeps_node: "keeps sc sc' \<Longrightarrow> spriteNode (heap sc p) = Some n \<Longrightarrow> spriteNode (heap sc' p) = Some n"
  by (simp add: keeps_def)

text \<open>
  Claim C1. A part keeps at most one node. When the part has a cached node \<open>s\<close>, choosing its
  node in \<open>Render.bodies\<close> and in \<open>Render.bodyWireframes\<close> is exactly the write of the pose into
  \<open>pos\<close> and \<open>rotate\<close> of \<open>s\<close>, and the whole visit of the part creates and appends nothing.
  When a visit does create a node, the part had none, exactly one node is appended, and the part
  refers to it from then on. Over a whole pass, a part that refers to a node refers to the
  same node afterwards, and a pass in which every visited part is cached leaves the children of
  the layer and the number of nodes as they were.
\<close>

theorem one_node_per_part:
  "(spriteNode (heap sc pr) = Some s \<longrightarrow>
      bodies_node pr sc
        = Ok (sc\<lparr>nodes := (nodes sc)(s := (nodes sc s)\<lparr>n_pos := part_pos (heap sc pr),
                                                     n_rotate := part_rotate (heap sc pr)\<rparr>)\<rparr>)
      \<and> wire_node e pr sc
        = Ok (sc\<lparr>nodes := (nodes sc)(s := (nodes sc s)\<lparr>n_pos := part_pos (heap sc pr),
                                                     n_rotate := part_rotate (heap sc pr)\<rparr>)\<rparr>)
      \<and> children (state_of (bodies_part ss br pr sc)) = children sc
      \<and> fresh (state_of (bodies_part ss br pr sc)) = fresh sc
      \<and> children (state_of (wire_part e ss br pr sc)) = children sc
      \<and> fresh (state_of (wire_part e ss br pr sc)) = fresh sc)
   \<and> (extent (state_of (bodies_part ss br pr sc)) \<noteq> extent sc \<longrightarrow>
        spriteNode (heap sc pr) = None
        \<and> children (state_of (bodies_part ss br pr sc)) = children sc @ [fresh sc]
        \<and> fresh (state_of (bodies_part ss br pr sc)) = Suc (fresh sc)
        \<and> spriteNode (heap (state_of (bodies_part ss br pr sc)) pr) = Some (fresh sc))
   \<and> (extent (state_of (wire_part e ss br pr sc)) \<noteq> extent sc \<longrightarrow>
        spriteNode (heap sc pr) = None
        \<and> children (state_of (wire_part e ss br pr sc)) = children sc @ [fresh sc]
        \<and> fresh (state_of (wire_part e ss br pr sc)) = Suc (fresh sc)
        \<and> spriteNode (heap (state_of (wire_part e ss br pr sc)) pr) = Some (fresh sc))
   \<and> (spriteNode (heap sc p) = Some n \<longrightarrow>
        spriteNode (heap (state_of (Render_bodies opts bs sc)) p) = Some n
        \<and> spriteNode (heap (state_of (Render_bodyWireframes opts bs sc)) p) = Some n)
   \<and> (all_cached sc bs \<longrightarrow>
        children (state_of (Render_bodies opts bs sc)) = children sc
        \<and> fresh (state_of (Render_bodies opts bs sc)) = fresh sc
        \<and> children (state_of (Render_bodyWireframes opts bs sc)) = children sc
        \<and> fresh (state_of (Render_bodyWireframes opts bs sc)) = fresh sc)"
proof -
  have a: "spriteNode (heap sc pr) = Some s \<longrightarrow>
      bodies_node pr sc
        = Ok (sc\<lparr>nodes := (nodes sc)(s := (nodes sc s)\<lparr>n_pos := part_pos (heap sc pr),
                                                     n_rotate := part_rotate (heap sc pr)\<rparr>)\<rparr>)
      \<and> wire_node e pr sc
        = Ok (sc\<lparr>nodes := (nodes sc)(s := (nodes sc s)\<lparr>n_pos := part_pos (heap sc pr),
                                                     n_rotate := part_rotate (heap sc pr)\<rparr>)\<rparr>)"
    by (simp add: bodies_node_cached wire_node_cached node_attr_def attr_pose_def)
  have b: "spriteNode (heap sc pr) = Some s \<longrightarrow>
      children (state_of (bodies_part ss br pr sc)) = children sc
      \<and> fresh (state_of (bodies_part ss br pr sc)) = fresh sc
      \<and> children (state_of (wire_part e ss br pr sc)) = children sc
      \<and> fresh (state_of (wire_part e ss br pr sc)) = fresh sc"
    using extent_bodies_part [of sc pr s ss br] extent_wire_part [of sc pr s e ss br]
    by (simp add: extent_def)
  have c: "spriteNode (heap sc p) = Some n \<longrightarrow>
        spriteNode (heap (state_of (Render_bodies opts bs sc)) p) = Some n
        \<and> spriteNode (heap (state_of (Render_bodyWireframes opts bs sc)) p) = Some n"
    using keeps_node [OF keeps_Render_bodies, of sc p n opts bs]
      keeps_node [OF keeps_Render_bodyWireframes, of sc p n opts bs] by simp
  have d: "all_cached sc bs \<longrightarrow>
        children (state_of (Render_bodies opts bs sc)) = children sc
        \<and> fresh (state_of (Render_bodies opts bs sc)) = fresh sc
        \<and> children (state_of (Render_bodyWireframes opts bs sc)) = children sc
        \<and> fresh (state_of (Render_bodyWireframes opts bs sc)) = fresh sc"
    using extent_Render_bodies [of sc bs opts] extent_Render_bodyWireframes [of sc bs opts]
    by (simp add: extent_def)
  show ?thesis
    using a b c d bodies_part_grows [of ss br pr sc] wire_part_grows [of e ss br pr sc]
    by blast
qed

lemma demo_heap: "heap demo_scene r = demo_body"
  by (simp add: demo_scene_def)

lemma demo_cached_heap:
  "heap demo_cached r = (if r = 0 then demo_body\<lparr>spriteNode := Some 0\<rparr> else demo_body)"
  by (simp add: demo_cached_def adopt_def Let_def demo_scene_def)

lemma demo_cached_extent: "children demo_cached = [0]" "fresh demo_cached = 1"
  by (simp_all add: demo_cached_def adopt_def Let_def demo_scene_def)

lemma demo_wire_node_cached: "wire_node False 0 demo_scene = Ok demo_cached"
  by (simp add: demo_wire_node demo_cached_def)

lemma sleeping_fade_idle:
  "\<not> isSleeping (heap sc br) \<Longrightarrow> \<not> truthy (fullOpacity (heap sc pr)) \<Longrightarrow>
   sleeping_fade ss br pr s sc = sc"
  by (simp add: sleeping_fade_def Let_def)

lemma demo_wire_part: "wire_part False True 0 0 demo_scene = Ok demo_cached"
  by (simp add: wire_part_def demo_wire_node_cached sleeping_fade_idle demo_cached_heap
      demo_body_def truthy_def)

lemma demo_wire_frame:
  "Render_bodyWireframes (default_options False) [0] demo_scene = Ok demo_cached"
  by (simp add: Render_bodyWireframes_def wire_body_def default_options_def demo_heap
      part_refs_def demo_body_def [of ] demo_wire_part)

lemma demo_all_cached: "all_cached demo_cached [0]"
  by (simp add: all_cached_def cached_def demo_cached_heap part_refs_def demo_body_def)

theorem one_node_per_part_witness:
  "Render_bodyWireframes (default_options False) [0] demo_scene = Ok demo_cached
   \<and> spriteNode (heap demo_cached 0) = Some 0
   \<and> children demo_cached = [0]
   \<and> children (state_of (Render_bodyWireframes (default_options False) [0] demo_cached)) = [0]
   \<and> children (state_of (Render_bodies (default_options False) [0] demo_cached)) = [0]
   \<and> spriteNode (heap (state_of (Render_bodies (default_options False) [0] demo_cached)) 0) = Some 0
   \<and> n_pos (nodes (state_of (bodies_node 0 demo_cached)) 0) = (123 / 10, 568 / 10)
   \<and> spriteNode (heap demo_scene 0) = None
   \<and> children (state_of (wire_part False True 0 0 demo_scene)) = [0]
   \<and> children (state_of (bodies_part True 0 0 demo_scene)) = [0]
   \<and> spriteNode (heap (state_of (bodies_part True 0 0 demo_scene)) 0) = Some 0"
proof -
  have c: "spriteNode (heap demo_cached 0) = Some 0"
    by (simp add: demo_cached_heap)
  have p: "part_pos (heap demo_cached 0) = (123 / 10, 568 / 10)"
    by (simp add: demo_cached_heap demo_body_def part_pos_def Math_round_def)
  have n: "children demo_scene = []" "fresh demo_scene = 0"
    by (simp_all add: demo_scene_def)
  have w: "extent (state_of (wire_part False True 0 0 demo_scene)) \<noteq> extent demo_scene"
    by (simp add: demo_wire_part extent_def demo_cached_extent n)
  have b: "extent (state_of (bodies_part True 0 0 demo_scene)) \<noteq> extent demo_scene"
    by (simp add: extent_def eval_defs demo_scene_def demo_body_def)
  show ?thesis
    using one_node_per_part [of demo_cached 0 0 False True 0 0 0 "default_options False" "[0]"]
      one_node_per_part [of demo_scene 0 0 False True 0]
      c p n w b demo_all_cached demo_wire_frame demo_cached_extent
    by simp
qed

section \<open>Verification: the sleeping fade\<close>

lemma sleeping_fade_view:
  assumes "spriteNode (heap sc pr) = Some s"
  shows "(n_opacity (nodes (sleeping_fade ss br pr s sc) s), fullOpacity (heap (sleeping_fade ss br pr s sc) pr))
     = fade_view (ss \<and> isSleeping (heap sc br)) (n_opacity (nodes sc s), fullOpacity (heap sc pr))"
    and "isSleeping (heap (sleeping_fade ss br pr s sc) br) = isSleeping (heap sc br)"
    and "visible (heap (sleeping_fade ss br pr s sc) pr) = visible (heap sc pr)"
    and "render_sprite (heap (sleeping_fade ss br pr s sc) pr) = render_sprite (heap sc pr)"
    and "spriteNode (heap (sleeping_fade ss br pr s sc) pr) = Some s"
  using assms by (auto simp: sleeping_fade_def fade_view_def Let_def)

lemma wire_node_view:
  assumes "wire_node e pr sc = Ok sc1"
  shows "spriteNode (heap sc1 pr) \<noteq> None"
    and "\<forall>s. spriteNode (heap sc pr) = Some s \<longrightarrow> spriteNode (heap sc1 pr) = Some s"
    and "isSleeping (heap sc1 br) = isSleeping (heap sc br)"
    and "visible (heap sc1 pr) = visible (heap sc pr)"
    and "render_sprite (heap sc1 pr) = render_sprite (heap sc pr)"
    and "fullOpacity (heap sc1 pr) = fullOpacity (heap sc pr)"
    and "node_opacity sc1 pr = pre_opacity sc pr"
  using assms
  by (auto simp: wire_node_def Let_def node_attr_def adopt_def attr_pose_def path_node_def
      attr_other_def new_node_def node_opacity_def node_of_def pre_opacity_def
      split: option.splits list.splits if_splits)

lemma bodies_node_view:
  assumes "bodies_node pr sc = Ok sc1"
  shows "spriteNode (heap sc1 pr) \<noteq> None"
    and "\<forall>s. spriteNode (heap sc pr) = Some s \<longrightarrow> spriteNode (heap sc1 pr) = Some s"
    and "isSleeping (heap sc1 br) = isSleeping (heap sc br)"
    and "visible (heap sc1 pr) = visible (heap sc pr)"
    and "render_sprite (heap sc1 pr) = render_sprite (heap sc pr)"
    and "fullOpacity (heap sc1 pr) = fullOpacity (heap sc pr)"
    and "node_opacity sc1 pr = pre_opacity sc pr"
  using assms
  by (auto simp: bodies_node_def Let_def node_attr_def adopt_def attr_pose_def path_node_def
      sprite_node_def circle_node_def
      attr_other_def new_node_def node_opacity_def node_of_def pre_opacity_def
      split: option.splits list.splits if_splits)

lemma wire_part_step:
  assumes "is_ok (wire_part e ss br pr sc)"
  shows "fade_step ss br pr sc (state_of (wire_part e ss br pr sc))"
proof -
  obtain sc1 where ok: "wire_node e pr sc = Ok sc1"
    using assms by (cases "wire_node e pr sc") (simp_all add: wire_part_def)
  note v = wire_node_view [OF ok]
  obtain s where s: "spriteNode (heap sc1 pr) = Some s"
    using v(1) by auto
  have n: "node_of sc1 pr = s"
    using s by (simp add: node_of_def)
  have r: "state_of (wire_part e ss br pr sc) = sleeping_fade ss br pr s sc1"
    using ok n by (simp add: wire_part_def)
  note f = sleeping_fade_view [OF s]
  have o: "node_opacity (sleeping_fade ss br pr s sc1) pr = n_opacity (nodes (sleeping_fade ss br pr s sc1) s)"
    using f(5) by (simp add: node_opacity_def node_of_def)
  have p: "n_opacity (nodes sc1 s) = pre_opacity sc pr"
    using v(7) n by (simp add: node_opacity_def)
  show ?thesis
    unfolding fade_step_def r o using f v s p by auto
qed

lemma user_view:
  assumes "attrs_keep_opacity (heap sc pr)"
  shows "n_opacity (nodes (apply_sprite_attrs pr s sc) s) = n_opacity (nodes sc s)"
    and "heap (apply_sprite_attrs pr s sc) = heap sc"
  using assms
  by (auto simp: attrs_keep_opacity_def apply_sprite_attrs_def node_attr_def attr_user_def
      split: option.splits)

lemma bodies_part_step:
  assumes "is_ok (bodies_part ss br pr sc)" and "visible (heap sc pr)"
    and "attrs_keep_opacity (heap sc pr)"
  shows "fade_step ss br pr sc (state_of (bodies_part ss br pr sc))"
proof -
  obtain sc1 where ok: "bodies_node pr sc = Ok sc1"
    using assms(1,2) by (cases "bodies_node pr sc") (simp_all add: bodies_part_def)
  note v = bodies_node_view [OF ok]
  obtain s where s: "spriteNode (heap sc1 pr) = Some s"
    using v(1) by auto
  have n: "node_of sc1 pr = s"
    using s by (simp add: node_of_def)
  define sc2 where "sc2 = apply_sprite_attrs pr s sc1"
  have k: "attrs_keep_opacity (heap sc1 pr)"
    using assms(3) v(5) by (simp add: attrs_keep_opacity_def sprite_attrs_of_def)
  note u = user_view [OF k, of s, folded sc2_def]
  have s2: "spriteNode (heap sc2 pr) = Some s"
    using s u(2) by simp
  have r: "state_of (bodies_part ss br pr sc) = sleeping_fade ss br pr s sc2"
    using ok n assms(2) by (simp add: bodies_part_def sc2_def)
  note f = sleeping_fade_view [OF s2]
  have o: "node_opacity (sleeping_fade ss br pr s sc2) pr = n_opacity (nodes (sleeping_fade ss br pr s sc2) s)"
    using f(5) by (simp add: node_opacity_def node_of_def)
  have p: "n_opacity (nodes sc2 s) = pre_opacity sc pr"
    using v(7) n u(1) by (simp add: node_opacity_def)
  show ?thesis
    unfolding fade_step_def r o using f v s p u(2) by auto
qed

lemma wire_part_cached_ok: "spriteNode (heap sc pr) \<noteq> None \<Longrightarrow> is_ok (wire_part e ss br pr sc)"
  by (auto simp: wire_part_def wire_node_def Let_def)

lemma bodies_part_cached_ok: "spriteNode (heap sc pr) \<noteq> None \<Longrightarrow> is_ok (bodies_part ss br pr sc)"
  by (auto simp: bodies_part_def bodies_node_def Let_def)

lemma pre_opacity_cached: "spriteNode (heap sc pr) \<noteq> None \<Longrightarrow> pre_opacity sc pr = node_opacity sc pr"
  by (auto simp: pre_opacity_def node_opacity_def node_of_def)

lemma wake_view:
  "spriteNode (heap (wake br sc) pr) = spriteNode (heap sc pr)"
  "fullOpacity (heap (wake br sc) pr) = fullOpacity (heap sc pr)"
  "visible (heap (wake br sc) pr) = visible (heap sc pr)"
  "render_sprite (heap (wake br sc) pr) = render_sprite (heap sc pr)"
  "nodes (wake br sc) = nodes sc"
  "\<not> isSleeping (heap (wake br sc) br)"
  by (simp_all add: wake_def)

lemma pre_opacity_wake: "pre_opacity (wake br sc) pr = pre_opacity sc pr"
  by (simp add: pre_opacity_def wake_view split: option.splits)

lemma fade_round_trip:
  assumes 1: "fade_step True br pr sc w1" and 2: "fade_step True br pr w1 w2"
    and 3: "fade_step ss br pr (wake br w2) w3"
    and a: "isSleeping (heap sc br)" and n: "\<not> truthy (fullOpacity (heap sc pr))"
  shows "node_opacity w1 pr = pre_opacity sc pr / 2
    \<and> fullOpacity (heap w1 pr) = Some (pre_opacity sc pr)
    \<and> node_opacity w2 pr = node_opacity w1 pr
    \<and> node_opacity w3 pr = pre_opacity sc pr"
proof -
  let ?o = "pre_opacity sc pr"
  have v1: "node_opacity w1 pr = ?o / 2" "fullOpacity (heap w1 pr) = Some ?o"
      "isSleeping (heap w1 br)" "spriteNode (heap w1 pr) \<noteq> None"
    using 1 a n by (auto simp: fade_step_def fade_view_def)
  have p1: "pre_opacity w1 pr = ?o / 2"
    using v1 by (simp add: pre_opacity_cached)
  have v2: "node_opacity w2 pr = ?o / 2" "fullOpacity (heap w2 pr) = Some ?o"
      "spriteNode (heap w2 pr) \<noteq> None"
    using 2 v1 p1 by (auto simp: fade_step_def fade_view_def truthy_def split: if_splits)
  have p2: "pre_opacity (wake br w2) pr = ?o / 2"
    using v2 pre_opacity_cached [of w2 pr] by (simp add: pre_opacity_wake)
  have v3: "node_opacity w3 pr = ?o"
    using 3 v2 p2 by (auto simp: fade_step_def fade_view_def truthy_def wake_view split: if_splits)
  show ?thesis
    using v1 v2 v3 by simp
qed

text \<open>
  Where the fade does what it is meant to do. Take a part \<open>pr\<close> of a sleeping body \<open>br\<close> that is
  not faded yet, and render it three times with no fault the first time: asleep, asleep again,
  and after the engine has woken the body. In \<open>Render.bodyWireframes\<close>, and in \<open>Render.bodies\<close>
  for a visible part whose sprite attributes do not set \<open>opacity\<close>: after the first frame the
  node's opacity is half the opacity it had before, which is remembered in \<open>part.fullOpacity\<close>;
  the second frame leaves the opacity as the first left it; the third restores the opacity from
  before the fade.
\<close>

lemma sleeping_fade_round_trip:
  assumes "isSleeping (heap sc br)" and "\<not> truthy (fullOpacity (heap sc pr))"
  shows
    "(is_ok (wire_part e True br pr sc) \<longrightarrow>
        (let w1 = state_of (wire_part e True br pr sc);
             w2 = state_of (wire_part e True br pr w1);
             w3 = state_of (wire_part e ss br pr (wake br w2))
         in node_opacity w1 pr = pre_opacity sc pr / 2
            \<and> fullOpacity (heap w1 pr) = Some (pre_opacity sc pr)
            \<and> node_opacity w2 pr = node_opacity w1 pr
            \<and> node_opacity w3 pr = pre_opacity sc pr))
     \<and> (is_ok (bodies_part True br pr sc) \<and> visible (heap sc pr)
          \<and> attrs_keep_opacity (heap sc pr) \<longrightarrow>
        (let b1 = state_of (bodies_part True br pr sc);
             b2 = state_of (bodies_part True br pr b1);
             b3 = state_of (bodies_part ss br pr (wake br b2))
         in node_opacity b1 pr = pre_opacity sc pr / 2
            \<and> fullOpacity (heap b1 pr) = Some (pre_opacity sc pr)
            \<and> node_opacity b2 pr = node_opacity b1 pr
            \<and> node_opacity b3 pr = pre_opacity sc pr))"
proof (intro conjI impI)
  assume ok: "is_ok (wire_part e True br pr sc)"
  define w1 where "w1 = state_of (wire_part e True br pr sc)"
  define w2 where "w2 = state_of (wire_part e True br pr w1)"
  define w3 where "w3 = state_of (wire_part e ss br pr (wake br w2))"
  have 1: "fade_step True br pr sc w1"
    unfolding w1_def using ok by (rule wire_part_step)
  have c1: "spriteNode (heap w1 pr) \<noteq> None"
    using 1 by (simp add: fade_step_def)
  have 2: "fade_step True br pr w1 w2"
    unfolding w2_def using c1 by (intro wire_part_step wire_part_cached_ok)
  have c2: "spriteNode (heap (wake br w2) pr) \<noteq> None"
    using 2 by (simp add: fade_step_def wake_view)
  have 3: "fade_step ss br pr (wake br w2) w3"
    unfolding w3_def using c2 by (intro wire_part_step wire_part_cached_ok)
  show "let w1 = state_of (wire_part e True br pr sc);
             w2 = state_of (wire_part e True br pr w1);
             w3 = state_of (wire_part e ss br pr (wake br w2))
         in node_opacity w1 pr = pre_opacity sc pr / 2
            \<and> fullOpacity (heap w1 pr) = Some (pre_opacity sc pr)
            \<and> node_opacity w2 pr = node_opacity w1 pr
            \<and> node_opacity w3 pr = pre_opacity sc pr"
    using fade_round_trip [OF 1 2 3 assms]
    by (simp add: Let_def w1_def w2_def w3_def)
next
  assume h: "is_ok (bodies_part True br pr sc) \<and> visible (heap sc pr)
          \<and> attrs_keep_opacity (heap sc pr)"
  define b1 where "b1 = state_of (bodies_part True br pr sc)"
  define b2 where "b2 = state_of (bodies_part True br pr b1)"
  define b3 where "b3 = state_of (bodies_part ss br pr (wake br b2))"
  have k: "\<And>x y. render_sprite x = render_sprite y \<Longrightarrow> attrs_keep_opacity x = attrs_keep_opacity y"
    by (simp add: attrs_keep_opacity_def sprite_attrs_of_def)
  have 1: "fade_step True br pr sc b1"
    unfolding b1_def using h by (intro bodies_part_step) simp_all
  have c1: "spriteNode (heap b1 pr) \<noteq> None" "visible (heap b1 pr)" "attrs_keep_opacity (heap b1 pr)"
    using 1 h k [of "heap b1 pr" "heap sc pr"] by (simp_all add: fade_step_def)
  have 2: "fade_step True br pr b1 b2"
    unfolding b2_def using c1 by (intro bodies_part_step bodies_part_cached_ok)
  have c2: "spriteNode (heap (wake br b2) pr) \<noteq> None" "visible (heap (wake br b2) pr)"
      "attrs_keep_opacity (heap (wake br b2) pr)"
    using 2 c1 k [of "heap (wake br b2) pr" "heap b1 pr"] by (simp_all add: fade_step_def wake_view)
  have 3: "fade_step ss br pr (wake br b2) b3"
    unfolding b3_def using c2 by (intro bodies_part_step bodies_part_cached_ok)
  show "let b1 = state_of (bodies_part True br pr sc);
             b2 = state_of (bodies_part True br pr b1);
             b3 = state_of (bodies_part ss br pr (wake br b2))
         in node_opacity b1 pr = pre_opacity sc pr / 2
            \<and> fullOpacity (heap b1 pr) = Some (pre_opacity sc pr)
            \<and> node_opacity b2 pr = node_opacity b1 pr
            \<and> node_opacity b3 pr = pre_opacity sc pr"
    using fade_round_trip [OF 1 2 3 assms]
    by (simp add: Let_def b1_def b2_def b3_def)
qed

lemma demo_asleep_facts:
  "isSleeping (heap demo_asleep 0)" "\<not> truthy (fullOpacity (heap demo_asleep 0))"
  "visible (heap demo_asleep 0)" "attrs_keep_opacity (heap demo_asleep 0)"
  "pre_opacity demo_asleep 0 = 1"
  "is_ok (wire_part False True 0 0 demo_asleep)" "is_ok (bodies_part True 0 0 demo_asleep)"
  by (simp_all add: eval_defs demo_asleep_def demo_scene_def demo_body_def
      attrs_keep_opacity_def pre_opacity_def)

lemma sleeping_fade_round_trip_demo:
  "is_ok (wire_part False True 0 0 demo_asleep)
   \<and> node_opacity (state_of (wire_part False True 0 0 demo_asleep)) 0 = 1 / 2
   \<and> node_opacity (state_of (wire_part False True 0 0
         (state_of (wire_part False True 0 0 demo_asleep)))) 0 = 1 / 2
   \<and> node_opacity (state_of (wire_part False True 0 0
         (wake 0 (state_of (wire_part False True 0 0
            (state_of (wire_part False True 0 0 demo_asleep))))))) 0 = 1
   \<and> is_ok (bodies_part True 0 0 demo_asleep)
   \<and> node_opacity (state_of (bodies_part True 0 0 demo_asleep)) 0 = 1 / 2
   \<and> node_opacity (state_of (bodies_part True 0 0
         (state_of (bodies_part True 0 0 demo_asleep)))) 0 = 1 / 2
   \<and> node_opacity (state_of (bodies_part True 0 0
         (wake 0 (state_of (bodies_part True 0 0
            (state_of (bodies_part True 0 0 demo_asleep))))))) 0 = 1"
  using sleeping_fade_round_trip [of demo_asleep 0 0 False True] demo_asleep_facts
  by (simp add: Let_def)

text \<open>
  Claim C5. The sleeping fade is meant to be idempotent: the guard \<open>if(!part.fullOpacity)\<close>
  halves the opacity only once, and \<open>Render.bodyWireframes\<close> keeps the node faded for as long as
  the body sleeps. \<open>Render.bodies\<close> does not: it passes \<open>part.render.sprite.attrs\<close> to the node
  in every frame, before the fade, so attributes that set \<open>opacity\<close> overwrite the faded opacity
  while the guard, \<open>fullOpacity\<close> being set, keeps the fade from being applied again. The sprite
  of this visible, sleeping body has a texture and the attributes \<open>{opacity: 0.8}\<close>. The first
  frame of \<open>Render.bodies\<close> fades its node to 0.4 and remembers 0.8; the second frame, the body
  still asleep, leaves the node at 0.8, not faded. On the same body \<open>Render.bodyWireframes\<close>
  fades the node to 0.5 in the first frame and leaves it at 0.5 in the second.
\<close>

theorem sprite_opacity_undoes_fade:
  "isSleeping (heap demo_tinted_scene 0)
   \<and> visible (heap demo_tinted_scene 0)
   \<and> o_showSleeping (default_options False)
   \<and> is_ok (Render_bodies (default_options False) [0] demo_tinted_scene)
   \<and> node_opacity (state_of (Render_bodies (default_options False) [0] demo_tinted_scene)) 0
       = 4 / 10
   \<and> fullOpacity (heap (state_of (Render_bodies (default_options False) [0] demo_tinted_scene)) 0)
       = Some (8 / 10)
   \<and> isSleeping (heap (state_of (Render_bodies (default_options False) [0] demo_tinted_scene)) 0)
   \<and> is_ok (Render_bodies (default_options False) [0]
         (state_of (Render_bodies (default_options False) [0] demo_tinted_scene)))
   \<and> node_opacity (state_of (Render_bodies (default_options False) [0]
         (state_of (Render_bodies (default_options False) [0] demo_tinted_scene)))) 0
       = 8 / 10
   \<and> node_opacity (state_of (Render_bodyWireframes (default_options False) [0]
         demo_tinted_scene)) 0 = 1 / 2
   \<and> node_opacity (state_of (Render_bodyWireframes (default_options False) [0]
         (state_of (Render_bodyWireframes (default_options False) [0] demo_tinted_scene)))) 0
       = 1 / 2"
  by (simp add: Render_bodies_def bodies_body_def Render_bodyWireframes_def wire_body_def
      part_refs_def default_options_def eval_defs
      demo_tinted_scene_def demo_tinted_def demo_scene_def demo_body_def)


section \<open>Verification: frames and the overlay callback\<close>









lemma but_context_refl: "but_context r r"
proof -
  have "r = r\<lparr>r_context := r_context r\<rparr>" by simp
  then show ?thesis unfolding but_context_def by (rule exI)
qed

lemma but_context_run_overlay:
  assumes "but_context r s"
  shows "but_context r (state_of (run_overlay en d s))"
proof -
  obtain c where s: "s = r\<lparr>r_context := c\<rparr>"
    using assms by (auto simp: but_context_def)
  show ?thesis
  proof (cases "en")
    case False
    then show ?thesis using assms by (simp add: run_overlay_def)
  next
    case True
    show ?thesis
    proof (cases "d s")
      case (Ok c')
      then have "state_of (run_overlay en d s) = r\<lparr>r_context := c'\<rparr>"
        using True by (simp add: run_overlay_def s)
      then show ?thesis unfolding but_context_def by (rule exI)
    next
      case (Fault e c')
      then have "state_of (run_overlay en d s) = r\<lparr>r_context := c'\<rparr>"
        using True by (simp add: run_overlay_def s)
      then show ?thesis unfolding but_context_def by (rule exI)
    qed
  qed
qed

lemma overlay_step_ctx:
  assumes "x \<in> set (overlay_steps ov cb)" and "but_context r s"
  shows "but_context r (state_of (x s))"
  using assms(1) but_context_run_overlay [OF assms(2)]
  by (auto simp: overlay_steps_def)

lemma overlay_steps_ctx:
  "but_context r (state_of (for_each (\<lambda>step. step) (overlay_steps ov cb) r))"
proof -
  have "but_context r (state_of (for_each (\<lambda>step. step) (overlay_steps ov cb) r))
      \<and> () = ()"
    by (rule for_each_frame [where Q = "but_context r" and g = "\<lambda>s. ()"])
      (simp_all add: overlay_step_ctx but_context_refl)
  then show ?thesis by simp
qed

lemma extraDraw_result:
  "extraDraw ov cb r = Fault e r' \<Longrightarrow> but_context r r'"
  "extraDraw ov cb r = Ok r' \<Longrightarrow> \<exists>r1. but_context r r1 \<and> r' = extraDraw_end cb r1"
proof -
  let ?a = "for_each (\<lambda>step. step) (overlay_steps ov cb) r"
  have b: "but_context r (state_of ?a)" by (rule overlay_steps_ctx)
  show "extraDraw ov cb r = Fault e r' \<Longrightarrow> but_context r r'"
    using b by (cases ?a) (simp_all add: extraDraw_def)
  show "extraDraw ov cb r = Ok r' \<Longrightarrow> \<exists>r1. but_context r r1 \<and> r' = extraDraw_end cb r1"
    using b by (cases ?a) (auto simp: extraDraw_def)
qed


lemma sched_but_context: "but_context r s \<Longrightarrow> sched s = sched r"
  by (auto simp: but_context_def sched_def)

lemma sched_extraDraw_end:
  "sched (extraDraw_end cb r)
     = (remove1 cb (r_handlers r), None, r_closures r, r_events r @ [(AfterRender, cb_timestamp cb)])"
  by (simp add: extraDraw_end_def extraDraw_release_def Events_trigger_def Let_def sched_def Render_endViewTransform_def)

lemma extraDraw_sched:
  "extraDraw ov cb r = Fault e r' \<Longrightarrow> sched r' = sched r"
  "extraDraw ov cb r = Ok r' \<Longrightarrow>
     sched r' = (remove1 cb (r_handlers r), None, r_closures r,
                 r_events r @ [(AfterRender, cb_timestamp cb)])"
proof -
  show "extraDraw ov cb r = Fault e r' \<Longrightarrow> sched r' = sched r"
    using extraDraw_result(1) [of ov cb r e r'] by (simp add: sched_but_context)
  assume "extraDraw ov cb r = Ok r'"
  then obtain r1 where b: "but_context r r1" and e: "r' = extraDraw_end cb r1"
    using extraDraw_result(2) by blast
  have "sched r1 = sched r" using b by (rule sched_but_context)
  then show "sched r' = (remove1 cb (r_handlers r), None, r_closures r,
                 r_events r @ [(AfterRender, cb_timestamp cb)])"
    unfolding e sched_extraDraw_end by (simp add: sched_def)
qed





lemmas world_defs = Render_world_def world_begin_def Events_trigger_def world_view_def world_cull_def main_pass_def
  on_scene_def begin_path_def schedule_def applyBackground_def is_image_def
  Render_bodyWireframes_def wire_body_def part_refs_def for_each.simps
  layer_update_def extraDraw_def overlay_steps_def run_overlay_def extraDraw_end_def extraDraw_release_def Events_trigger_def
  Render_mousePosition_def Render_constraints_def quiet_overlays_def
  demo_render_def demo_engine_def default_options_def demo_canvas_def
  demo_scene_def demo_body_def










section \<open>Verification: faults in the overlay pass\<close>

lemma for_each_stops:
  "for_each f xs s = Ok s1 \<Longrightarrow> f x s1 = Fault e s2 \<Longrightarrow>
   for_each f (xs @ x # ys) s = Fault e s2"
proof (induction xs arbitrary: s)
  case Nil
  then show ?case by simp
next
  case (Cons y xs)
  then show ?case by (cases "f y s") simp_all
qed

lemma mouse_fault:
  assumes "o_showMousePosition (r_options r)" and "r_mouse r = None"
    and "\<not> o_showBounds (r_options r)" and "\<not> o_showAxes (r_options r)"
    and "\<not> o_showAngleIndicator (r_options r)" and "\<not> o_showPositions (r_options r)"
    and "\<not> o_showVelocity (r_options r)" and "\<not> o_showIds (r_options r)"
    and "\<not> o_showSeparations (r_options r)" and "\<not> o_showCollisions (r_options r)"
    and "\<not> o_showVertexNumbers (r_options r)"
  shows "extraDraw ov cb r
    = Fault TypeError (r\<lparr>r_context := r_context r @ [SetFillStyle ''rgba(255,255,255,0.8)'']\<rparr>)"
  using assms
  by (simp add: extraDraw_def overlay_steps_def run_overlay_def Render_mousePosition_def Let_def)

lemma extraDraw_reverts:
  assumes "extraDraw ov cb r = Ok r'" and "o_hasBounds (r_options r)"
  shows "last (r_context r')
    = SetTransform (to_num (o_pixelRatio (r_options r))) (Fin 0) (Fin 0)
        (to_num (o_pixelRatio (r_options r))) (Fin 0) (Fin 0)"
proof -
  obtain r1 where b: "but_context r r1" and e: "r' = extraDraw_end cb r1"
    using extraDraw_result(2) [OF assms(1)] by blast
  have "r_options r1 = r_options r"
    using b by (auto simp: but_context_def)
  then show ?thesis
    unfolding e using assms(2) by (simp add: extraDraw_end_def extraDraw_release_def Events_trigger_def Render_endViewTransform_def Let_def)
qed

text \<open>
  Claim C8, as the code has it. Overlay faults are not isolated: \<open>extraDraw\<close> has no handler
  around its overlay renderers. When an overlay renderer faults, the fault leaves the
  callback at once: no later overlay runs, the view transform is not reverted, the callback
  stays registered and \<open>render.extraDraw\<close> stays set, and \<open>afterRender\<close> is not emitted; only
  the context differs from before the pass. \<open>Render.mousePosition\<close> does so whenever
  \<open>showMousePosition\<close> is set and there is no mouse (shown for the case that no earlier overlay
  is enabled). The nodes the main pass updated are untouched either way. A pass without a
  fault deregisters the callback, clears \<open>render.extraDraw\<close>, emits \<open>afterRender\<close>, and with
  bounds ends by resetting the transform.
\<close>

theorem overlay_fault_propagates:
  "(extraDraw ov cb r = Fault e r' \<longrightarrow>
      r' = r\<lparr>r_context := r_context r'\<rparr>
      \<and> r_handlers r' = r_handlers r \<and> r_extraDraw r' = r_extraDraw r
      \<and> r_events r' = r_events r \<and> r_scene r' = r_scene r)
   \<and> (overlay_steps ov cb = before @ x # after
        \<and> for_each (\<lambda>step. step) before r = Ok r1 \<and> x r1 = Fault e r2 \<longrightarrow>
      extraDraw ov cb r = Fault e r2)
   \<and> (o_showMousePosition (r_options r) \<and> r_mouse r = None
        \<and> \<not> o_showBounds (r_options r) \<and> \<not> o_showAxes (r_options r)
        \<and> \<not> o_showAngleIndicator (r_options r) \<and> \<not> o_showPositions (r_options r)
        \<and> \<not> o_showVelocity (r_options r) \<and> \<not> o_showIds (r_options r)
        \<and> \<not> o_showSeparations (r_options r) \<and> \<not> o_showCollisions (r_options r)
        \<and> \<not> o_showVertexNumbers (r_options r) \<longrightarrow>
      extraDraw ov cb r
        = Fault TypeError (r\<lparr>r_context := r_context r @ [SetFillStyle ''rgba(255,255,255,0.8)'']\<rparr>))
   \<and> (extraDraw ov cb r = Ok r' \<longrightarrow>
      r_handlers r' = remove1 cb (r_handlers r) \<and> r_extraDraw r' = None
      \<and> r_events r' = r_events r @ [(AfterRender, cb_timestamp cb)]
      \<and> r_scene r' = r_scene r
      \<and> (o_hasBounds (r_options r) \<longrightarrow>
           last (r_context r')
             = SetTransform (to_num (o_pixelRatio (r_options r))) (Fin 0) (Fin 0)
                 (to_num (o_pixelRatio (r_options r))) (Fin 0) (Fin 0)))"
proof -
  have 1: "extraDraw ov cb r = Fault e r' \<longrightarrow>
      r' = r\<lparr>r_context := r_context r'\<rparr>
      \<and> r_handlers r' = r_handlers r \<and> r_extraDraw r' = r_extraDraw r
      \<and> r_events r' = r_events r \<and> r_scene r' = r_scene r"
  proof
    assume "extraDraw ov cb r = Fault e r'"
    then have "but_context r r'" by (rule extraDraw_result(1))
    then obtain c where "r' = r\<lparr>r_context := c\<rparr>"
      by (auto simp: but_context_def)
    then show "r' = r\<lparr>r_context := r_context r'\<rparr>
      \<and> r_handlers r' = r_handlers r \<and> r_extraDraw r' = r_extraDraw r
      \<and> r_events r' = r_events r \<and> r_scene r' = r_scene r"
      by simp
  qed
  have 2: "overlay_steps ov cb = before @ x # after
        \<and> for_each (\<lambda>step. step) before r = Ok r1 \<and> x r1 = Fault e r2 \<longrightarrow>
      extraDraw ov cb r = Fault e r2"
    using for_each_stops [of "\<lambda>step. step" before r r1 x e r2 after]
    by (auto simp: extraDraw_def)
  have 4: "extraDraw ov cb r = Ok r' \<longrightarrow>
      r_handlers r' = remove1 cb (r_handlers r) \<and> r_extraDraw r' = None
      \<and> r_events r' = r_events r @ [(AfterRender, cb_timestamp cb)]
      \<and> r_scene r' = r_scene r
      \<and> (o_hasBounds (r_options r) \<longrightarrow>
           last (r_context r')
             = SetTransform (to_num (o_pixelRatio (r_options r))) (Fin 0) (Fin 0)
                 (to_num (o_pixelRatio (r_options r))) (Fin 0) (Fin 0))"
  proof
    assume ok: "extraDraw ov cb r = Ok r'"
    obtain r1 where b: "but_context r r1" and e: "r' = extraDraw_end cb r1"
      using extraDraw_result(2) [OF ok] by blast
    have "r_scene r1 = r_scene r"
      using b by (auto simp: but_context_def)
    then have sc: "r_scene r' = r_scene r"
      unfolding e by (simp add: extraDraw_end_def extraDraw_release_def Events_trigger_def Render_endViewTransform_def Let_def)
    show "r_handlers r' = remove1 cb (r_handlers r) \<and> r_extraDraw r' = None
      \<and> r_events r' = r_events r @ [(AfterRender, cb_timestamp cb)]
      \<and> r_scene r' = r_scene r
      \<and> (o_hasBounds (r_options r) \<longrightarrow>
           last (r_context r')
             = SetTransform (to_num (o_pixelRatio (r_options r))) (Fin 0) (Fin 0)
                 (to_num (o_pixelRatio (r_options r))) (Fin 0) (Fin 0))"
      using extraDraw_sched(2) [OF ok] sc extraDraw_reverts [OF ok]
      by (simp add: sched_def)
  qed
  show ?thesis
    using 1 2 4 mouse_fault [of r ov cb] by blast
qed

theorem overlay_fault_propagates_witness:
  "extraDraw quiet_overlays demo_callback demo_pointerless
     = Fault TypeError (demo_pointerless\<lparr>r_context := [SetFillStyle ''rgba(255,255,255,0.8)'']\<rparr>)
   \<and> r_handlers (state_of (extraDraw quiet_overlays demo_callback demo_pointerless))
       = r_handlers demo_pointerless
   \<and> r_events (state_of (extraDraw quiet_overlays demo_callback demo_pointerless))
       = r_events demo_pointerless
   \<and> (overlay_steps quiet_overlays demo_callback ! 8) demo_pointerless
       = Fault TypeError (demo_pointerless\<lparr>r_context := [SetFillStyle ''rgba(255,255,255,0.8)'']\<rparr>)
   \<and> is_ok (extraDraw quiet_overlays demo_callback demo_render)
   \<and> r_extraDraw (state_of (extraDraw quiet_overlays demo_callback demo_render)) = None"
proof -
  let ?steps = "overlay_steps quiet_overlays demo_callback"
  let ?faulted = "demo_pointerless\<lparr>r_context := [SetFillStyle ''rgba(255,255,255,0.8)'']\<rparr>"
  have o: "r_options demo_pointerless
      = (default_options True)\<lparr>o_showMousePosition := True, o_showDebug := True,
          o_width := Some (Fin 800), o_height := Some (Fin 600), o_pixelRatio := Some (Fin 1)\<rparr>"
      "r_mouse demo_pointerless = None" "r_context demo_pointerless = []"
    by (simp_all add: demo_pointerless_def demo_render_def)
  have ok: "is_ok (extraDraw quiet_overlays demo_callback demo_render)"
    by (simp add: world_defs eval_defs demo_callback_def demo_spring_def constraint_draw_def)
  then obtain rr where k: "extraDraw quiet_overlays demo_callback demo_render = Ok rr"
    by (cases "extraDraw quiet_overlays demo_callback demo_render") simp_all
  have n: "r_extraDraw rr = None"
    using overlay_fault_propagates [where ov = quiet_overlays and cb = demo_callback
        and r = demo_render and r' = rr] k
    by simp
  have f: "extraDraw quiet_overlays demo_callback demo_pointerless = Fault TypeError ?faulted"
    using overlay_fault_propagates [where ov = quiet_overlays and cb = demo_callback
        and r = demo_pointerless] o
    by (simp add: default_options_def)
  have sp: "?steps = take 8 ?steps @ (?steps ! 8) # drop 9 ?steps"
    by (simp add: overlay_steps_def)
  have b8: "for_each (\<lambda>step. step) (take 8 ?steps) demo_pointerless = Ok demo_pointerless"
    by (simp add: overlay_steps_def run_overlay_def o default_options_def)
  have x8: "(?steps ! 8) demo_pointerless = Fault TypeError ?faulted"
    by (simp add: overlay_steps_def run_overlay_def Render_mousePosition_def o
        default_options_def)
  have g: "extraDraw quiet_overlays demo_callback demo_pointerless = Fault TypeError ?faulted"
    using overlay_fault_propagates [where ov = quiet_overlays and cb = demo_callback
        and r = demo_pointerless and before = "take 8 ?steps" and x = "?steps ! 8"
        and after = "drop 9 ?steps" and ?r1.0 = demo_pointerless and e = TypeError
        and ?r2.0 = ?faulted] sp b8 x8
    by blast
  have h: "r_handlers ?faulted = r_handlers demo_pointerless
      \<and> r_events ?faulted = r_events demo_pointerless"
    using overlay_fault_propagates [where ov = quiet_overlays and cb = demo_callback
        and r = demo_pointerless and e = TypeError and r' = ?faulted] g
    by blast
  show ?thesis
    using f h x8 ok k n by simp
qed

text \<open>
  The claim as stated fails: after one frame of a renderer with \<open>showMousePosition\<close> and no
  mouse, the \<open>update\<close> signal faults in \<open>Render.mousePosition\<close>. The visible spring is not drawn
  (\<open>Render.constraints\<close> comes later), the transform is not reset, the callback is still pending
  and no \<open>afterRender\<close> has been emitted.
\<close>

theorem overlay_fault_not_isolated:
  "is_ok (Render_world demo_pointerless)
   \<and> \<not> is_ok (layer_update quiet_overlays (step quiet_overlays Frame demo_pointerless))
   \<and> length (pending (run quiet_overlays [Frame, Update] demo_pointerless)) = 1
   \<and> r_extraDraw (run quiet_overlays [Frame, Update] demo_pointerless)
       = r_extraDraw (run quiet_overlays [Frame] demo_pointerless)
   \<and> cb_constraints (hd (pending (run quiet_overlays [Frame, Update] demo_pointerless)))
       = [demo_spring]
   \<and> c_visible demo_spring
   \<and> count_events AfterRender (run quiet_overlays [Frame, Update] demo_pointerless) = 0
   \<and> r_context (run quiet_overlays [Frame, Update] demo_pointerless)
       = [Scale (Fin 1) (Fin 1), Translate (Fin 0) (Fin 0), BeginPath,
          SetFillStyle ''rgba(255,255,255,0.8)'']"
  by (simp add: count_events_def pending_def demo_pointerless_def world_defs eval_defs
      Render_startViewTransform_def to_num_def js_sub_def cull_constraints.simps
      point_world_def constraint_in_view_def Bounds_contains_def Bounds_overlaps_def
      js_ge_def js_le_def demo_spring_def)

section \<open>Verification: \<open>Render.create\<close>\<close>

text \<open>
  Claim C9, as the code has it. \<open>Render.create\<close> faults, with a \<open>TypeError\<close>, exactly when it is
  given no drawing target: no options object, no layer, or a layer without canvas. It checks
  nothing else: without an engine it returns a render object whose engine is undefined, and
  \<open>Render.world\<close> on that object faults before it emits or draws anything.
\<close>

theorem create_faults_iff:
  "isl (Render_create sc options) = lacks_target options
   \<and> (Render_create sc options = Inl e \<longrightarrow> e = TypeError)
   \<and> (Render_create sc (Some opts) = Inr r \<longrightarrow>
        r_engine r = co_engine opts \<and> r_scene r = sc
        \<and> r_extraDraw r = None \<and> r_handlers r = [] \<and> r_events r = []
        \<and> (co_engine opts = None \<longrightarrow> Render_world r = Fault TypeError r))"
proof -
  have 1: "isl (Render_create sc options) = lacks_target options"
    by (simp add: Render_create_def lacks_target_def split: option.splits)
  have 2: "Render_create sc options = Inl e \<longrightarrow> e = TypeError"
    by (cases e) simp
  have 3: "Render_create sc (Some opts) = Inr r \<longrightarrow>
        r_engine r = co_engine opts \<and> r_scene r = sc
        \<and> r_extraDraw r = None \<and> r_handlers r = [] \<and> r_events r = []
        \<and> (co_engine opts = None \<longrightarrow> Render_world r = Fault TypeError r)"
    by (auto simp: Render_create_def Render_world_def split: option.splits)
  show ?thesis
    using 1 2 3 by blast
qed

theorem create_faults_iff_witness:
  "Render_create demo_scene (Some demo_setup) = Inr demo_render
   \<and> isl (Render_create demo_scene None)
   \<and> isl (Render_create demo_scene (Some (demo_setup\<lparr>co_layer := None\<rparr>)))
   \<and> isl (Render_create demo_scene (Some (demo_setup\<lparr>co_layer := Some \<lparr>l_canvas = None\<rparr>\<rparr>)))
   \<and> r_engine demo_render = Some demo_engine
   \<and> Render_world (demo_render\<lparr>r_engine := None\<rparr>) = Fault TypeError (demo_render\<lparr>r_engine := None\<rparr>)"
proof -
  have c: "Render_create demo_scene (Some demo_setup) = Inr demo_render"
    by (simp add: Render_create_def demo_setup_def demo_render_def demo_canvas_def)
  have d: "Render_create demo_scene (Some (demo_setup\<lparr>co_engine := None\<rparr>))
      = Inr (demo_render\<lparr>r_engine := None\<rparr>)"
    by (simp add: Render_create_def demo_setup_def demo_render_def demo_canvas_def)
  show ?thesis
    using c d create_faults_iff [of demo_scene None]
      create_faults_iff [of demo_scene "Some (demo_setup\<lparr>co_layer := None\<rparr>)"]
      create_faults_iff [of demo_scene "Some (demo_setup\<lparr>co_layer := Some \<lparr>l_canvas = None\<rparr>\<rparr>)"]
      create_faults_iff [of demo_scene "Some demo_setup" _ demo_setup demo_render]
      create_faults_iff [of demo_scene "Some (demo_setup\<lparr>co_engine := None\<rparr>)" _
        "demo_setup\<lparr>co_engine := None\<rparr>" "demo_render\<lparr>r_engine := None\<rparr>"]
    by (simp add: lacks_target_def demo_setup_def)
qed

text \<open>
  The claim as stated fails. Without an engine \<open>Render.create\<close> succeeds, and the fault comes
  with the first frame. And an optional input can make a later operation fault: created with
  \<open>showMousePosition\<close> and no mouse, the renderer faults in the overlay pass of its first frame.
\<close>

theorem create_without_engine_succeeds:
  "co_engine (demo_setup\<lparr>co_engine := None\<rparr>) = None
   \<and> Render_create demo_scene (Some (demo_setup\<lparr>co_engine := None\<rparr>))
       = Inr (demo_render\<lparr>r_engine := None\<rparr>)
   \<and> Render_world (demo_render\<lparr>r_engine := None\<rparr>)
       = Fault TypeError (demo_render\<lparr>r_engine := None\<rparr>)
   \<and> Render_create demo_scene
        (Some (demo_setup\<lparr>co_engine := Some (demo_engine\<lparr>e_constraints := [demo_spring]\<rparr>),
           co_bounds := Some \<lparr>b_min = (Fin 0, Fin 0), b_max = (Fin 800, Fin 600)\<rparr>,
           co_options := (\<lambda>options. options\<lparr>o_showMousePosition := True, o_showDebug := True,
             o_width := Some (Fin 800), o_height := Some (Fin 600),
             o_pixelRatio := Some (Fin 1)\<rparr>)\<rparr>))
       = Inr demo_pointerless
   \<and> is_ok (Render_world demo_pointerless)
   \<and> layer_update quiet_overlays (state_of (Render_world demo_pointerless))
       = Fault TypeError
           ((state_of (Render_world demo_pointerless))
              \<lparr>r_context := r_context (state_of (Render_world demo_pointerless))
                 @ [SetFillStyle ''rgba(255,255,255,0.8)'']\<rparr>)"
  by (simp add: Render_create_def demo_setup_def demo_pointerless_def world_defs eval_defs
      Render_startViewTransform_def to_num_def js_sub_def cull_constraints.simps
      point_world_def constraint_in_view_def Bounds_contains_def Bounds_overlaps_def
      js_ge_def js_le_def demo_spring_def)

end
